theory Spec2Isabelle
  imports Complex_Main
begin

section \<open>Python floats\<close>

text \<open>
  The coordinates of a Revit \<open>XYZ\<close> and every Python \<open>float\<close> of the two scripts are
  IEEE binary64 numbers. A float is modelled by the real number it denotes, and every
  arithmetic operation of the source by the exact operation followed by a rounding
  \<open>rnd\<close>, which is a parameter of the model: the identity gives exact arithmetic,
  \<open>round_binary64\<close> gives what the interpreter computes (round to nearest, ties to even,
  53 bits of significand, spacing never below \<open>2 ^ -1074\<close>) as long as no result reaches
  \<open>2 ^ 1024\<close>, where the interpreter yields \<open>inf\<close> and the model does not follow.
\<close>

type_synonym rounding = "real \<Rightarrow> real"

definition fadd :: "rounding \<Rightarrow> real \<Rightarrow> real \<Rightarrow> real" where
  "fadd rnd x y = rnd (x + y)"

definition fsub :: "rounding \<Rightarrow> real \<Rightarrow> real \<Rightarrow> real" where
  "fsub rnd x y = rnd (x - y)"

definition fdiv :: "rounding \<Rightarrow> real \<Rightarrow> real \<Rightarrow> real" where
  "fdiv rnd x y = rnd (x / y)"

fun ulp_up :: "nat \<Rightarrow> real \<Rightarrow> real \<Rightarrow> real" where
  "ulp_up 0 x p = p"
| "ulp_up (Suc n) x p = (if \<bar>x\<bar> < 2 ^ 53 * p then p else ulp_up n x (2 * p))"

fun ulp_down :: "nat \<Rightarrow> real \<Rightarrow> real \<Rightarrow> real" where
  "ulp_down 0 x p = p"
| "ulp_down (Suc n) x p = (if 2 ^ 52 * p \<le> \<bar>x\<bar> then p else ulp_down n x (p / 2))"

definition ulp :: "real \<Rightarrow> real" where
  "ulp x = (if 1 \<le> \<bar>x\<bar> then ulp_up 1023 x (1 / 2 ^ 52) else ulp_down 1022 x (1 / 2 ^ 52))"

definition round_half_even :: "real \<Rightarrow> int" where
  "round_half_even y =
     (let f = \<lfloor>y\<rfloor>; r = y - of_int f
      in if r < 1 / 2 then f else if 1 / 2 < r then f + 1 else if even f then f else f + 1)"

definition round_binary64 :: rounding where
  "round_binary64 x = (if x = 0 then 0 else let p = ulp x in of_int (round_half_even (x / p)) * p)"

text \<open>
  What is rounded: the exact results of the two operations of \<open>(a + b) / 2.0\<close>, and of
  the five operations that \<open>set_element_elevation\<close> performs on the elevations \<open>a\<close> and
  \<open>b\<close> of the two end points. A rounding is accurate to \<open>u\<close> on such results when it
  returns each with a relative error of at most \<open>u\<close>: the standard model of
  floating-point arithmetic, with \<open>u = 2 ^ -53\<close> for binary64 away from overflow and
  underflow, and \<open>u = 0\<close> for exact arithmetic.
\<close>

definition middle_operations :: "rounding \<Rightarrow> real \<Rightarrow> real \<Rightarrow> real list" where
  "middle_operations rnd a b = [a + b, fadd rnd a b / 2]"

definition shift_operations :: "rounding \<Rightarrow> real \<Rightarrow> real \<Rightarrow> real \<Rightarrow> real list" where
  "shift_operations rnd a b E =
     (let current_middle = fdiv rnd (fadd rnd a b) 2;
          elevation_diff = fsub rnd E current_middle
      in middle_operations rnd a b @
         [E - current_middle, a + elevation_diff, b + elevation_diff])"

definition accurate :: "rounding \<Rightarrow> real \<Rightarrow> real list \<Rightarrow> bool" where
  "accurate rnd u xs = list_all (\<lambda>x. \<bar>rnd x - x\<bar> \<le> u * \<bar>x\<bar>) xs"

section \<open>The host document\<close>

text \<open>
  The Revit API is not part of the repository. The model keeps the part of it that the
  scripts touch: an element has a category and a location, a location may hold a curve,
  a bound curve has two end points. What the host decides on its own (whether
  \<open>Line.CreateBound\<close> accepts two points, whether it accepts a new curve for an element)
  is a parameter, \<open>host\<close>.
\<close>

datatype exn = AttributeError | OperationCanceledException | HostException

record XYZ =
  X :: real
  Y :: real
  Z :: real

datatype Curve =
    Line XYZ XYZ
  | Arc XYZ XYZ XYZ
  | UnboundLine XYZ XYZ

datatype Location = is_LocationCurve: LocationCurve Curve | LocationPoint XYZ | NoLocation

record element =
  Category :: "int option"
  Location :: Location

type_synonym elem_id = nat

type_synonym document = "elem_id \<Rightarrow> element option"

record host =
  CreateBound_raises :: "XYZ \<Rightarrow> XYZ \<Rightarrow> bool"
  set_Curve_raises :: "element \<Rightarrow> Curve \<Rightarrow> bool"

text \<open>\<open>curve.GetEndPoint(i)\<close>: the end points of a bound curve; an unbound curve has none.\<close>

fun GetEndPoint :: "Curve \<Rightarrow> nat \<Rightarrow> exn + XYZ" where
  "GetEndPoint (Line a b) i = (if i = 0 then Inr a else if i = 1 then Inr b else Inl HostException)"
| "GetEndPoint (Arc a b m) i = (if i = 0 then Inr a else if i = 1 then Inr b else Inl HostException)"
| "GetEndPoint (UnboundLine p d) i = Inl HostException"

definition CreateBound :: "host \<Rightarrow> XYZ \<Rightarrow> XYZ \<Rightarrow> exn + Curve" where
  "CreateBound h a b = (if CreateBound_raises h a b then Inl HostException else Inr (Line a b))"

text \<open>\<open>location.Curve = new_line\<close>: the host replaces the curve or raises and changes nothing.\<close>

definition set_Curve :: "host \<Rightarrow> document \<Rightarrow> elem_id \<Rightarrow> Curve \<Rightarrow> exn + document" where
  "set_Curve h doc i c =
     (case doc i of
        None \<Rightarrow> Inl AttributeError
      | Some el \<Rightarrow>
          if set_Curve_raises h el c then Inl HostException
          else Inr (doc(i \<mapsto> el\<lparr>Location := LocationCurve c\<rparr>)))"

subsection \<open>The pick service and what a session shows\<close>

text \<open>
  \<open>uidoc.Selection.PickObject(ObjectType.Element, filter, prompt)\<close> blocks until the
  operator clicks an element that the filter allows, or presses ESC, which raises
  \<open>OperationCanceledException\<close>. The operator's gestures are the input of a session: a
  click on nothing or on an element that the filter refuses is ignored and the call goes
  on waiting; with no gesture left the call never returns (\<open>Pending\<close>). An exception
  of the filter or a fault of the host leaves the call as an exception.
\<close>

datatype input = Click elem_id | Esc | Fault

datatype pick_result = Returned elem_id | Raised exn | Pending

fun PickObject :: "('e \<Rightarrow> exn + bool) \<Rightarrow> (elem_id \<Rightarrow> 'e option) \<Rightarrow> input list \<Rightarrow> pick_result \<times> input list" where
  "PickObject allow doc [] = (Pending, [])"
| "PickObject allow doc (Esc # ins) = (Raised OperationCanceledException, ins)"
| "PickObject allow doc (Fault # ins) = (Raised HostException, ins)"
| "PickObject allow doc (Click i # ins) =
     (case doc i of
        None \<Rightarrow> PickObject allow doc ins
      | Some el \<Rightarrow>
          (case allow el of
             Inl e \<Rightarrow> (Raised e, ins)
           | Inr ok \<Rightarrow> if ok then (Returned i, ins) else PickObject allow doc ins))"

lemma PickObject_length:
  "PickObject allow doc ins = (r, rest) \<Longrightarrow> r \<noteq> Pending \<Longrightarrow> length rest < length ins"
proof (induction ins)
  case Nil
  then show ?case by simp
next
  case (Cons a ins)
  show ?case
  proof (cases a)
    case (Click i)
    show ?thesis
    proof (cases "PickObject allow doc (a # ins) = PickObject allow doc ins")
      case True
      with Cons show ?thesis by fastforce
    next
      case False
      with Cons.prems Click show ?thesis
        by (auto split: option.splits sum.splits if_splits)
    qed
  qed (use Cons.prems in auto)
qed

text \<open>
  What a session does towards the operator and the host, in order: the calls of
  \<open>PickObject\<close> with their prompt and outcome, the transactions, the calls of
  \<open>forms.alert\<close> and of \<open>uidoc.RefreshActiveView\<close>.
\<close>

datatype prompt = Source | Target

datatype message =
    Could_not_get_elevation
  | No_Text_Found
  | Selection_Error
  | Success nat
  | Finished_none_updated
  | Cancelled
  | Unexpected_Error

datatype event =
    Pick prompt pick_result
  | Transaction_committed
  | Transaction_rolled_back
  | Alert message
  | RefreshActiveView

text \<open>
  The state of a session: the document, the counter of the loop (\<open>counter\<close>,
  \<open>updated_count\<close>), the events so far, and whether \<open>main\<close> has returned or still
  waits in \<open>PickObject\<close>.
\<close>

record 'd session =
  document :: 'd
  count :: nat
  events :: "event list"
  returned :: bool

text \<open>The alerts among the events, and the targets that \<open>PickObject\<close> returned.\<close>

fun alerts :: "event list \<Rightarrow> message list" where
  "alerts [] = []"
| "alerts (Alert m # es) = m # alerts es"
| "alerts (e # es) = alerts es"

fun picked_targets :: "event list \<Rightarrow> elem_id list" where
  "picked_targets [] = []"
| "picked_targets (Pick Target (Returned i) # es) = i # picked_targets es"
| "picked_targets (e # es) = picked_targets es"

section \<open>Match Elevation Tool\<close>

subsection \<open>\<open>MEPElementFilter\<close>\<close>

datatype BuiltInCategory =
    OST_PipeCurves | OST_DuctCurves | OST_CableTray | OST_Conduit
  | OST_FlexDuctCurves | OST_FlexPipeCurves

definition categories :: "BuiltInCategory list" where
  "categories = [OST_PipeCurves, OST_DuctCurves, OST_CableTray, OST_Conduit,
                 OST_FlexDuctCurves, OST_FlexPipeCurves]"

text \<open>
  \<open>int(cat)\<close>, the integer of a category of the host's enumeration, is the parameter
  \<open>int_of\<close>. An element without category makes \<open>element.Category.Id\<close> raise.
\<close>

fun AllowElement_loop :: "(BuiltInCategory \<Rightarrow> int) \<Rightarrow> int \<Rightarrow> BuiltInCategory list \<Rightarrow> bool" where
  "AllowElement_loop int_of v [] = False"
| "AllowElement_loop int_of v (cat # cats) =
     (if v = int_of cat then True else AllowElement_loop int_of v cats)"

definition AllowElement :: "(BuiltInCategory \<Rightarrow> int) \<Rightarrow> element \<Rightarrow> exn + bool" where
  "AllowElement int_of el =
     (case Category el of
        None \<Rightarrow> Inl AttributeError
      | Some v \<Rightarrow> Inr (AllowElement_loop int_of v categories))"

definition AllowReference :: "'r \<Rightarrow> 'p \<Rightarrow> bool" where
  "AllowReference reference position = False"

subsection \<open>\<open>get_element_middle_elevation\<close> and \<open>set_element_elevation\<close>\<close>

text \<open>
  An element handle is an identifier of the document; \<open>doc i = None\<close> is the handle
  \<open>None\<close> that \<open>doc.GetElement\<close> returns for an element it does not find. The body of each
  helper is the \<open>try\<close> block, with every exception a value \<open>Inl\<close>; the helper itself is the
  block under its bare \<open>except\<close>.
\<close>

definition get_element_middle_elevation_body :: "rounding \<Rightarrow> document \<Rightarrow> elem_id \<Rightarrow> exn + real option" where
  "get_element_middle_elevation_body rnd doc i =
     (case doc i of
        None \<Rightarrow> Inl AttributeError
      | Some el \<Rightarrow>
          (case Location el of
             LocationCurve curve \<Rightarrow>
               (case GetEndPoint curve 0 of
                  Inl e \<Rightarrow> Inl e
                | Inr start_point \<Rightarrow>
                    (case GetEndPoint curve 1 of
                       Inl e \<Rightarrow> Inl e
                     | Inr end_point \<Rightarrow>
                         let middle_elevation = fdiv rnd (fadd rnd (Z start_point) (Z end_point)) 2
                         in Inr (Some middle_elevation)))
           | _ \<Rightarrow> Inr None))"

definition get_element_middle_elevation :: "rounding \<Rightarrow> document \<Rightarrow> elem_id \<Rightarrow> exn + real option" where
  "get_element_middle_elevation rnd doc i =
     (case get_element_middle_elevation_body rnd doc i of
        Inl e \<Rightarrow> Inr None
      | Inr r \<Rightarrow> Inr r)"

definition set_element_elevation_body :: "rounding \<Rightarrow> host \<Rightarrow> document \<Rightarrow> elem_id \<Rightarrow> real \<Rightarrow> exn + bool \<times> document" where
  "set_element_elevation_body rnd h doc i target_elevation =
     (case doc i of
        None \<Rightarrow> Inl AttributeError
      | Some el \<Rightarrow>
          (case Location el of
             LocationCurve curve \<Rightarrow>
               (case GetEndPoint curve 0 of
                  Inl e \<Rightarrow> Inl e
                | Inr start_point \<Rightarrow>
                    (case GetEndPoint curve 1 of
                       Inl e \<Rightarrow> Inl e
                     | Inr end_point \<Rightarrow>
                         let current_middle = fdiv rnd (fadd rnd (Z start_point) (Z end_point)) 2;
                             elevation_diff = fsub rnd target_elevation current_middle;
                             new_start = \<lparr>X = X start_point, Y = Y start_point,
                                          Z = fadd rnd (Z start_point) elevation_diff\<rparr>;
                             new_end = \<lparr>X = X end_point, Y = Y end_point,
                                        Z = fadd rnd (Z end_point) elevation_diff\<rparr>
                         in (case CreateBound h new_start new_end of
                               Inl e \<Rightarrow> Inl e
                             | Inr new_line \<Rightarrow>
                                 (case set_Curve h doc i new_line of
                                    Inl e \<Rightarrow> Inl e
                                  | Inr doc' \<Rightarrow> Inr (True, doc')))))
           | _ \<Rightarrow> Inr (False, doc)))"

definition set_element_elevation :: "rounding \<Rightarrow> host \<Rightarrow> document \<Rightarrow> elem_id \<Rightarrow> real \<Rightarrow> exn + bool \<times> document" where
  "set_element_elevation rnd h doc i target_elevation =
     (case set_element_elevation_body rnd h doc i target_elevation of
        Inl e \<Rightarrow> Inr (False, doc)
      | Inr r \<Rightarrow> Inr r)"

subsection \<open>\<open>main\<close>\<close>

text \<open>
  The target loop. \<open>with revit.Transaction("Match Elevation")\<close> commits when its block
  ends without exception, which is every time, since \<open>set_element_elevation\<close> catches
  whatever is raised; the value it returns is dropped. The bare \<open>except\<close> around the
  block leaves the loop on any exception of \<open>PickObject\<close>.
\<close>

function target_loop ::
  "rounding \<Rightarrow> host \<Rightarrow> (BuiltInCategory \<Rightarrow> int) \<Rightarrow> real \<Rightarrow> document \<Rightarrow> input list \<Rightarrow> nat \<Rightarrow> event list
     \<Rightarrow> document session" where
  "target_loop rnd h int_of source_elevation doc ins counter evs =
     (case PickObject (AllowElement int_of) doc ins of
        (Pending, rest) \<Rightarrow>
          \<lparr>document = doc, count = counter, events = evs @ [Pick Target Pending], returned = False\<rparr>
      | (Raised e, rest) \<Rightarrow>
          \<lparr>document = doc, count = counter, events = evs @ [Pick Target (Raised e)], returned = True\<rparr>
      | (Returned target_element, rest) \<Rightarrow>
          (case set_element_elevation rnd h doc target_element source_elevation of
             Inl e \<Rightarrow>
               \<lparr>document = doc, count = counter,
                events = evs @ [Pick Target (Returned target_element), Transaction_rolled_back],
                returned = True\<rparr>
           | Inr (ok, doc') \<Rightarrow>
               target_loop rnd h int_of source_elevation doc' rest (counter + 1)
                 (evs @ [Pick Target (Returned target_element), Transaction_committed])))"
  by pat_completeness auto
termination
proof (relation "measure (\<lambda>(rnd, h, int_of, src, doc, ins, counter, evs). length ins)", goal_cases)
  case 1
  show ?case by simp
next
  case (2 rnd h int_of source_elevation doc ins counter evs x1 rest target_element x2 ok doc')
  then show ?case
    using PickObject_length[of "AllowElement int_of" doc ins "Returned target_element" rest]
    by simp
qed

declare target_loop.simps [simp del]

text \<open>
  \<open>main\<close>, from the pick of the source to the end of the loop. The outer bare
  \<open>except\<close> ends the session silently on any exception; \<open>forms.alert\<close> with
  \<open>exitscript=True\<close> ends it after the alert. The prompt's text, with the elevation in
  millimetres, is not modelled.
\<close>

definition main_elevation ::
  "rounding \<Rightarrow> host \<Rightarrow> (BuiltInCategory \<Rightarrow> int) \<Rightarrow> document \<Rightarrow> input list \<Rightarrow> document session" where
  "main_elevation rnd h int_of doc ins =
     (case PickObject (AllowElement int_of) doc ins of
        (Pending, rest) \<Rightarrow>
          \<lparr>document = doc, count = 0, events = [Pick Source Pending], returned = False\<rparr>
      | (Raised e, rest) \<Rightarrow>
          \<lparr>document = doc, count = 0, events = [Pick Source (Raised e)], returned = True\<rparr>
      | (Returned source_element, rest) \<Rightarrow>
          (case get_element_middle_elevation rnd doc source_element of
             Inl e \<Rightarrow>
               \<lparr>document = doc, count = 0, events = [Pick Source (Returned source_element)],
                returned = True\<rparr>
           | Inr None \<Rightarrow>
               \<lparr>document = doc, count = 0,
                events = [Pick Source (Returned source_element), Alert Could_not_get_elevation],
                returned = True\<rparr>
           | Inr (Some source_elevation) \<Rightarrow>
               target_loop rnd h int_of source_elevation doc rest 0
                 [Pick Source (Returned source_element)]))"

section \<open>Copie dim text\<close>

text \<open>
  The document of the dimension tool: an element is a \<open>DB.Dimension\<close> with its four
  text fields, each a string or \<open>None\<close>, or something else. Whether the host raises
  while the four fields of a target are written and the transaction is committed is the
  parameter \<open>paste_raises\<close>, of the target's identifier and state; leaving the
  \<open>with\<close> block by an exception disposes of the transaction, which rolls it back.
\<close>

record Dimension =
  Above :: "string option"
  Below :: "string option"
  Prefix :: "string option"
  Suffix :: "string option"

datatype dim_element = DB_Dimension Dimension | Not_Dimension

type_synonym dim_document = "elem_id \<Rightarrow> dim_element option"

text \<open>\<open>DimensionSelectionFilter\<close>\<close>

fun Dimension_AllowElement :: "dim_element \<Rightarrow> exn + bool" where
  "Dimension_AllowElement (DB_Dimension d) = Inr True"
| "Dimension_AllowElement Not_Dimension = Inr False"

definition Dimension_AllowReference :: "'r \<Rightarrow> 'p \<Rightarrow> bool" where
  "Dimension_AllowReference reference position = False"

text \<open>Python's truth value of a text field: \<open>None\<close> and the empty string are false.\<close>

fun truthy :: "string option \<Rightarrow> bool" where
  "truthy None = False"
| "truthy (Some s) = (s \<noteq> [])"

text \<open>The block of the transaction: look the target up and overwrite its four fields.\<close>

definition paste ::
  "(elem_id \<Rightarrow> dim_element \<Rightarrow> bool) \<Rightarrow> string option \<Rightarrow> string option \<Rightarrow> string option \<Rightarrow> string option
     \<Rightarrow> dim_document \<Rightarrow> elem_id \<Rightarrow> exn + dim_document" where
  "paste paste_raises text_above text_below text_prefix text_suffix doc i =
     (case doc i of
        None \<Rightarrow> Inl AttributeError
      | Some Not_Dimension \<Rightarrow> Inl AttributeError
      | Some (DB_Dimension target_dim) \<Rightarrow>
          if paste_raises i (DB_Dimension target_dim) then Inl HostException
          else Inr (doc(i \<mapsto> DB_Dimension
                 (target_dim\<lparr>Above := text_above, Below := text_below,
                              Prefix := text_prefix, Suffix := text_suffix\<rparr>))))"

function paste_loop ::
  "(elem_id \<Rightarrow> dim_element \<Rightarrow> bool) \<Rightarrow> string option \<Rightarrow> string option \<Rightarrow> string option \<Rightarrow> string option
     \<Rightarrow> dim_document \<Rightarrow> input list \<Rightarrow> nat \<Rightarrow> event list \<Rightarrow> dim_document session" where
  "paste_loop paste_raises text_above text_below text_prefix text_suffix doc ins updated_count evs =
     (case PickObject Dimension_AllowElement doc ins of
        (Pending, rest) \<Rightarrow>
          \<lparr>document = doc, count = updated_count, events = evs @ [Pick Target Pending],
           returned = False\<rparr>
      | (Raised e, rest) \<Rightarrow>
          if e = OperationCanceledException
          then \<lparr>document = doc, count = updated_count, events = evs @ [Pick Target (Raised e)],
                returned = True\<rparr>
          else \<lparr>document = doc, count = updated_count,
                events = evs @ [Pick Target (Raised e), Alert Selection_Error], returned = True\<rparr>
      | (Returned target, rest) \<Rightarrow>
          (case paste paste_raises text_above text_below text_prefix text_suffix doc target of
             Inl e \<Rightarrow>
               \<lparr>document = doc, count = updated_count,
                events = evs @ [Pick Target (Returned target), Transaction_rolled_back,
                                Alert Selection_Error],
                returned = True\<rparr>
           | Inr doc' \<Rightarrow>
               paste_loop paste_raises text_above text_below text_prefix text_suffix doc' rest
                 (updated_count + 1)
                 (evs @ [Pick Target (Returned target), Transaction_committed, RefreshActiveView])))"
  by pat_completeness auto
termination
proof (relation "measure (\<lambda>(pr, a, b, p, s, doc, ins, n, evs). length ins)", goal_cases)
  case 1
  show ?case by simp
next
  case (2 paste_raises text_above text_below text_prefix text_suffix doc ins updated_count evs x1 rest target doc')
  then show ?case
    using PickObject_length[of Dimension_AllowElement doc ins "Returned target" rest]
    by simp
qed

declare paste_loop.simps [simp del]

text \<open>
  \<open>main\<close> of the dimension tool. \<open>returned\<close> of the loop's state says that the loop was
  left by \<open>break\<close>; the final feedback follows then.
\<close>

definition final_feedback :: "dim_document session \<Rightarrow> dim_document session" where
  "final_feedback st =
     (if \<not> returned st then st
      else if count st > 0 then st\<lparr>events := events st @ [Alert (Success (count st))]\<rparr>
      else st\<lparr>events := events st @ [Alert Finished_none_updated]\<rparr>)"

definition main_dimension :: "(elem_id \<Rightarrow> dim_element \<Rightarrow> bool) \<Rightarrow> dim_document \<Rightarrow> input list \<Rightarrow> dim_document session" where
  "main_dimension paste_raises doc ins =
     (case PickObject Dimension_AllowElement doc ins of
        (Pending, rest) \<Rightarrow>
          \<lparr>document = doc, count = 0, events = [Pick Source Pending], returned = False\<rparr>
      | (Raised e, rest) \<Rightarrow>
          \<lparr>document = doc, count = 0,
           events = [Pick Source (Raised e),
                     Alert (if e = OperationCanceledException then Cancelled else Unexpected_Error)],
           returned = True\<rparr>
      | (Returned source, rest) \<Rightarrow>
          (case doc source of
             None \<Rightarrow>
               \<lparr>document = doc, count = 0, events = [Pick Source (Returned source)],
                returned = True\<rparr>
           | Some Not_Dimension \<Rightarrow>
               \<lparr>document = doc, count = 0,
                events = [Pick Source (Returned source), Alert Unexpected_Error], returned = True\<rparr>
           | Some (DB_Dimension source_dim) \<Rightarrow>
               let text_above = Above source_dim;
                   text_below = Below source_dim;
                   text_prefix = Prefix source_dim;
                   text_suffix = Suffix source_dim
               in if \<not> truthy text_above \<and> \<not> truthy text_below
                     \<and> \<not> truthy text_prefix \<and> \<not> truthy text_suffix
                  then \<lparr>document = doc, count = 0,
                        events = [Pick Source (Returned source), Alert No_Text_Found],
                        returned = True\<rparr>
                  else final_feedback
                         (paste_loop paste_raises text_above text_below text_prefix text_suffix
                            doc rest 0 [Pick Source (Returned source)])))"

section \<open>Inputs of the examples\<close>

text \<open>
  A host that refuses a line between two equal points and accepts every assignment of a
  curve, and a document whose only element, number 0, lies on the curve \<open>c\<close>.
\<close>

definition plain_host :: host where
  "plain_host = \<lparr>CreateBound_raises = (\<lambda>a b. a = b), set_Curve_raises = (\<lambda>el c. False)\<rparr>"

definition one_curve :: "Curve \<Rightarrow> document" where
  "one_curve c = (\<lambda>i. if i = 0 then Some \<lparr>Category = Some 0, Location = LocationCurve c\<rparr> else None)"

definition one_point :: "XYZ \<Rightarrow> document" where
  "one_point p = (\<lambda>i. if i = 0 then Some \<lparr>Category = Some 0, Location = LocationPoint p\<rparr> else None)"

text \<open>The float that Python reads from \<open>0.2\<close>.\<close>

definition float_0_2 :: real where
  "float_0_2 = 3602879701896397 / 2 ^ 54"

text \<open>
  An assignment of integers to the six categories, and a document of the elevation tool:
  a pipe from \<open>(0, 0, 0)\<close> to \<open>(10, 0, 4)\<close>, a pipe element that lies on a point, a
  level duct, an element of another category, and a sloped conduit.
\<close>

definition category_number :: "BuiltInCategory \<Rightarrow> int" where
  "category_number cat =
     (case cat of
        OST_PipeCurves \<Rightarrow> - 2008044
      | OST_DuctCurves \<Rightarrow> - 2008000
      | OST_CableTray \<Rightarrow> - 2008130
      | OST_Conduit \<Rightarrow> - 2008132
      | OST_FlexDuctCurves \<Rightarrow> - 2008020
      | OST_FlexPipeCurves \<Rightarrow> - 2008050)"

definition pipes :: document where
  "pipes = (\<lambda>i.
     if i = 0 then Some \<lparr>Category = Some (- 2008044),
        Location = LocationCurve (Line \<lparr>X = 0, Y = 0, Z = 0\<rparr> \<lparr>X = 10, Y = 0, Z = 4\<rparr>)\<rparr>
     else if i = 1 then Some \<lparr>Category = Some (- 2008044),
        Location = LocationPoint \<lparr>X = 1, Y = 2, Z = 3\<rparr>\<rparr>
     else if i = 2 then Some \<lparr>Category = Some (- 2008000),
        Location = LocationCurve (Line \<lparr>X = 0, Y = 5, Z = 1\<rparr> \<lparr>X = 8, Y = 5, Z = 1\<rparr>)\<rparr>
     else if i = 3 then Some \<lparr>Category = Some (- 2000011),
        Location = LocationCurve (Line \<lparr>X = 0, Y = 9, Z = 0\<rparr> \<lparr>X = 8, Y = 9, Z = 0\<rparr>)\<rparr>
     else if i = 4 then Some \<lparr>Category = Some (- 2008132),
        Location = LocationCurve (Line \<lparr>X = 0, Y = 7, Z = 2\<rparr> \<lparr>X = 8, Y = 7, Z = 4\<rparr>)\<rparr>
     else None)"

text \<open>
  A document of the dimension tool, and a host that raises when dimension 2 is written.
  Dimension 0 carries the texts of the spec's scenario, dimension 5 has no text.
\<close>

definition dimensions :: dim_document where
  "dimensions = (\<lambda>i.
     if i = 0 then Some (DB_Dimension \<lparr>Above = Some ''A'', Below = Some '''', Prefix = Some ''PRE'', Suffix = None\<rparr>)
     else if i = 1 then Some (DB_Dimension \<lparr>Above = None, Below = Some ''OLD'', Prefix = None, Suffix = None\<rparr>)
     else if i = 2 then Some (DB_Dimension \<lparr>Above = None, Below = None, Prefix = None, Suffix = None\<rparr>)
     else if i = 3 then Some (DB_Dimension \<lparr>Above = Some ''B'', Below = None, Prefix = None, Suffix = Some ''mm''\<rparr>)
     else if i = 4 then Some Not_Dimension
     else if i = 5 then Some (DB_Dimension \<lparr>Above = Some '''', Below = None, Prefix = Some '''', Suffix = None\<rparr>)
     else None)"

definition rejects_2 :: "elem_id \<Rightarrow> dim_element \<Rightarrow> bool" where
  "rejects_2 i el = (i = 2)"

section \<open>Rounding error of the shift\<close>

text \<open>
  The errors that the operations of one shift, of the middle elevation after it, and of
  a second shift accumulate, when the rounding is accurate to \<open>u\<close> on their exact
  results.
\<close>

lemma accurateD:
  "accurate rnd u xs \<Longrightarrow> x \<in> set xs \<Longrightarrow> \<bar>rnd x - x\<bar> \<le> u * \<bar>x\<bar>"
  by (simp add: accurate_def list_all_iff)

lemma rnd_err:
  fixes rnd :: rounding and u k M x :: real
  assumes "\<bar>rnd x - x\<bar> \<le> u * \<bar>x\<bar>" "0 \<le> u" "\<bar>x\<bar> \<le> k * M"
  shows "\<bar>rnd x - x\<bar> \<le> k * (u * M)"
proof -
  note assms(1)
  also have "u * \<bar>x\<bar> \<le> u * (k * M)" using assms(2,3) by (simp add: mult_left_mono)
  finally show ?thesis by (simp add: mult.left_commute)
qed

lemma rnd_abs:
  fixes rnd :: rounding and u k M x :: real
  assumes "\<bar>rnd x - x\<bar> \<le> u * \<bar>x\<bar>" "0 \<le> u" "u \<le> 1" "\<bar>x\<bar> \<le> k * M"
  shows "\<bar>rnd x\<bar> \<le> 2 * k * M"
proof -
  note assms(1)
  also have "u * \<bar>x\<bar> \<le> 1 * \<bar>x\<bar>" using assms(3) mult_right_mono[of u 1 "\<bar>x\<bar>"] by simp
  finally have "\<bar>rnd x\<bar> \<le> 2 * \<bar>x\<bar>" by linarith
  with assms(4) show ?thesis by linarith
qed

lemma shift_errors:
  fixes rnd :: rounding and a b E u :: real
  defines "m \<equiv> fdiv rnd (fadd rnd a b) 2"
  defines "d \<equiv> fsub rnd E m"
  defines "M \<equiv> \<bar>a\<bar> + \<bar>b\<bar> + \<bar>E\<bar>"
  assumes u0: "0 \<le> u" and u1: "u \<le> 1"
    and acc: "accurate rnd u (shift_operations rnd a b E)"
  shows "\<bar>m - (a + b) / 2\<bar> \<le> 3 / 2 * (u * M)"
    and "\<bar>d - (E - m)\<bar> \<le> 3 * (u * M)"
    and "\<bar>fadd rnd a d - (a + d)\<bar> \<le> 7 * (u * M)"
    and "\<bar>fadd rnd b d - (b + d)\<bar> \<le> 7 * (u * M)"
    and "\<bar>fadd rnd a d\<bar> \<le> 14 * M"
    and "\<bar>fadd rnd b d\<bar> \<le> 14 * M"
proof -
  define s1 where "s1 = rnd (a + b)"
  have mm: "m = rnd (s1 / 2)" by (simp add: m_def s1_def fdiv_def fadd_def)
  have dd: "d = rnd (E - m)" by (simp add: d_def fsub_def)
  have ops: "shift_operations rnd a b E = [a + b, s1 / 2, E - m, a + d, b + d]"
    by (simp add: shift_operations_def middle_operations_def Let_def m_def d_def s1_def fadd_def)
  have R1: "\<bar>rnd (a + b) - (a + b)\<bar> \<le> u * \<bar>a + b\<bar>"
    and R2: "\<bar>rnd (s1 / 2) - s1 / 2\<bar> \<le> u * \<bar>s1 / 2\<bar>"
    and R3: "\<bar>rnd (E - m) - (E - m)\<bar> \<le> u * \<bar>E - m\<bar>"
    and R4: "\<bar>rnd (a + d) - (a + d)\<bar> \<le> u * \<bar>a + d\<bar>"
    and R5: "\<bar>rnd (b + d) - (b + d)\<bar> \<le> u * \<bar>b + d\<bar>"
    by (rule accurateD[OF acc], simp only: ops list.set insert_iff, blast)+
  have x1: "\<bar>a + b\<bar> \<le> 1 * M" by (simp add: M_def)
  have e1: "\<bar>s1 - (a + b)\<bar> \<le> 1 * (u * M)" unfolding s1_def
    using R1 u0 x1 by (rule rnd_err)
  have n1: "\<bar>s1\<bar> \<le> 2 * 1 * M" unfolding s1_def using R1 u0 u1 x1 by (rule rnd_abs)
  have x2: "\<bar>s1 / 2\<bar> \<le> 1 * M" using n1 by simp
  have e2: "\<bar>m - s1 / 2\<bar> \<le> 1 * (u * M)" unfolding mm using R2 u0 x2 by (rule rnd_err)
  have n2: "\<bar>m\<bar> \<le> 2 * 1 * M" unfolding mm using R2 u0 u1 x2 by (rule rnd_abs)
  have x3: "\<bar>E - m\<bar> \<le> 3 * M" using n2 by (simp add: M_def)
  show e3: "\<bar>d - (E - m)\<bar> \<le> 3 * (u * M)" unfolding dd using R3 u0 x3 by (rule rnd_err)
  have n3: "\<bar>d\<bar> \<le> 2 * 3 * M" unfolding dd using R3 u0 u1 x3 by (rule rnd_abs)
  have x4: "\<bar>a + d\<bar> \<le> 7 * M" using n3 by (simp add: M_def)
  have x5: "\<bar>b + d\<bar> \<le> 7 * M" using n3 by (simp add: M_def)
  show "\<bar>fadd rnd a d - (a + d)\<bar> \<le> 7 * (u * M)"
    unfolding fadd_def using R4 u0 x4 by (rule rnd_err)
  show "\<bar>fadd rnd b d - (b + d)\<bar> \<le> 7 * (u * M)"
    unfolding fadd_def using R5 u0 x5 by (rule rnd_err)
  have "\<bar>rnd (a + d)\<bar> \<le> 2 * 7 * M" using R4 u0 u1 x4 by (rule rnd_abs)
  then show "\<bar>fadd rnd a d\<bar> \<le> 14 * M" by (simp add: fadd_def)
  have "\<bar>rnd (b + d)\<bar> \<le> 2 * 7 * M" using R5 u0 u1 x5 by (rule rnd_abs)
  then show "\<bar>fadd rnd b d\<bar> \<le> 14 * M" by (simp add: fadd_def)
  define U where "U = u * M"
  have "\<bar>m - (a + b) / 2\<bar> \<le> 3 / 2 * U"
    using e1 e2 unfolding U_def[symmetric] abs_le_iff by argo
  then show "\<bar>m - (a + b) / 2\<bar> \<le> 3 / 2 * (u * M)" by (simp add: U_def)
qed

lemma middle_error:
  fixes rnd :: rounding and a b u M k :: real
  assumes u0: "0 \<le> u" and u1: "u \<le> 1"
    and acc: "accurate rnd u (middle_operations rnd a b)"
    and bound: "\<bar>a\<bar> + \<bar>b\<bar> \<le> k * M"
  shows "\<bar>fdiv rnd (fadd rnd a b) 2 - (a + b) / 2\<bar> \<le> 3 / 2 * k * (u * M)"
proof -
  define s where "s = rnd (a + b)"
  have ops: "middle_operations rnd a b = [a + b, s / 2]"
    by (simp add: middle_operations_def s_def fadd_def)
  have R1: "\<bar>rnd (a + b) - (a + b)\<bar> \<le> u * \<bar>a + b\<bar>"
    and R2: "\<bar>rnd (s / 2) - s / 2\<bar> \<le> u * \<bar>s / 2\<bar>"
    by (rule accurateD[OF acc], simp only: ops list.set insert_iff, blast)+
  have x1: "\<bar>a + b\<bar> \<le> k * M" using bound by linarith
  have e1: "\<bar>s - (a + b)\<bar> \<le> k * (u * M)" unfolding s_def using R1 u0 x1 by (rule rnd_err)
  have n1: "\<bar>s\<bar> \<le> 2 * k * M" unfolding s_def using R1 u0 u1 x1 by (rule rnd_abs)
  have x2: "\<bar>s / 2\<bar> \<le> k * M" using n1 by simp
  have e2: "\<bar>rnd (s / 2) - s / 2\<bar> \<le> k * (u * M)" using R2 u0 x2 by (rule rnd_err)
  define K where "K = k * (u * M)"
  have "\<bar>rnd (s / 2) - (a + b) / 2\<bar> \<le> K + K / 2"
    using e1 e2 unfolding K_def[symmetric] abs_le_iff by argo
  also have "K + K / 2 = 3 / 2 * k * (u * M)" by (simp add: K_def)
  finally show ?thesis by (simp only: fdiv_def fadd_def s_def)
qed

lemma midpoint_error:
  fixes rnd :: rounding and a b E u :: real
  defines "d \<equiv> fsub rnd E (fdiv rnd (fadd rnd a b) 2)"
  assumes u0: "0 \<le> u" and u1: "u \<le> 1"
    and acc: "accurate rnd u (shift_operations rnd a b E)"
    and acc': "accurate rnd u (middle_operations rnd (fadd rnd a d) (fadd rnd b d))"
  shows "\<bar>fdiv rnd (fadd rnd (fadd rnd a d) (fadd rnd b d)) 2 - E\<bar> \<le> 54 * u * (\<bar>a\<bar> + \<bar>b\<bar> + \<bar>E\<bar>)"
proof -
  define M where "M = \<bar>a\<bar> + \<bar>b\<bar> + \<bar>E\<bar>"
  define m where "m = fdiv rnd (fadd rnd a b) 2"
  define a' where "a' = fadd rnd a d"
  define b' where "b' = fadd rnd b d"
  define m' where "m' = fdiv rnd (fadd rnd a' b') 2"
  have dm: "d = fsub rnd E m" by (simp add: d_def m_def)
  note s = shift_errors[OF u0 u1 acc]
  have s1: "\<bar>m - (a + b) / 2\<bar> \<le> 3 / 2 * (u * M)" using s(1) by (simp add: m_def M_def)
  have s2: "\<bar>d - (E - m)\<bar> \<le> 3 * (u * M)" using s(2) by (simp add: m_def M_def d_def)
  have s3: "\<bar>a' - (a + d)\<bar> \<le> 7 * (u * M)" using s(3) by (simp add: a'_def M_def d_def)
  have s4: "\<bar>b' - (b + d)\<bar> \<le> 7 * (u * M)" using s(4) by (simp add: b'_def M_def d_def)
  have s5: "\<bar>a'\<bar> \<le> 14 * M" using s(5) by (simp add: a'_def M_def d_def)
  have s6: "\<bar>b'\<bar> \<le> 14 * M" using s(6) by (simp add: b'_def M_def d_def)
  have "\<bar>a'\<bar> + \<bar>b'\<bar> \<le> 28 * M" using s5 s6 by linarith
  from middle_error[OF u0 u1 acc'[folded a'_def b'_def] this]
  have e: "\<bar>m' - (a' + b') / 2\<bar> \<le> 42 * (u * M)" by (simp add: m'_def)
  have uM: "0 \<le> u * M" using u0 by (simp add: M_def)
  define U where "U = u * M"
  have "\<bar>m' - E\<bar> \<le> 54 * U"
    using s1 s2 s3 s4 e uM unfolding U_def[symmetric] abs_le_iff by argo
  then have "\<bar>m' - E\<bar> \<le> 54 * (u * M)" by (simp add: U_def)
  then show ?thesis by (simp add: m'_def a'_def b'_def M_def mult.assoc)
qed

lemma accurate_append:
  "accurate rnd u (xs @ ys) \<longleftrightarrow> accurate rnd u xs \<and> accurate rnd u ys"
  by (simp add: accurate_def)

lemma accurate_shift_middle:
  "accurate rnd u (shift_operations rnd a b E) \<Longrightarrow> accurate rnd u (middle_operations rnd a b)"
  by (simp add: shift_operations_def Let_def accurate_append)

lemma second_shift_error:
  fixes rnd :: rounding and a b E u :: real
  defines "d \<equiv> fsub rnd E (fdiv rnd (fadd rnd a b) 2)"
  defines "a' \<equiv> fadd rnd a d" and "b' \<equiv> fadd rnd b d"
  defines "d2 \<equiv> fsub rnd E (fdiv rnd (fadd rnd a' b') 2)"
  assumes u0: "0 \<le> u" and u1: "u \<le> 1"
    and acc1: "accurate rnd u (shift_operations rnd a b E)"
    and acc2: "accurate rnd u (shift_operations rnd a' b' E)"
  shows "\<bar>fadd rnd a' d2 - a'\<bar> \<le> 230 * u * (\<bar>a\<bar> + \<bar>b\<bar> + \<bar>E\<bar>)"
    and "\<bar>fadd rnd b' d2 - b'\<bar> \<le> 230 * u * (\<bar>a\<bar> + \<bar>b\<bar> + \<bar>E\<bar>)"
proof -
  define M where "M = \<bar>a\<bar> + \<bar>b\<bar> + \<bar>E\<bar>"
  define U where "U = u * M"
  define m' where "m' = fdiv rnd (fadd rnd a' b') 2"
  have M0: "0 \<le> M" by (simp add: M_def)
  have U0: "0 \<le> U" using u0 M0 by (simp add: U_def)
  have U1: "U \<le> M" using u1 M0 mult_right_mono[of u 1 M] by (simp add: U_def)
  note s = shift_errors[OF u0 u1 acc1]
  have na: "\<bar>a'\<bar> \<le> 14 * M" using s(5) by (simp add: a'_def d_def M_def)
  have nb: "\<bar>b'\<bar> \<le> 14 * M" using s(6) by (simp add: b'_def d_def M_def)
  have me: "\<bar>m' - E\<bar> \<le> 54 * U"
    using midpoint_error[OF u0 u1 acc1 accurate_shift_middle[OF acc2, unfolded a'_def b'_def d_def]]
    by (simp add: m'_def a'_def b'_def d_def M_def U_def mult.assoc)
  have dd: "d2 = rnd (E - m')" by (simp add: d2_def m'_def fsub_def)
  have ops: "shift_operations rnd a' b' E =
      [a' + b', fadd rnd a' b' / 2, E - m', a' + d2, b' + d2]"
    by (simp add: shift_operations_def middle_operations_def Let_def m'_def d2_def)
  have R3: "\<bar>rnd (E - m') - (E - m')\<bar> \<le> u * \<bar>E - m'\<bar>"
    and R4: "\<bar>rnd (a' + d2) - (a' + d2)\<bar> \<le> u * \<bar>a' + d2\<bar>"
    and R5: "\<bar>rnd (b' + d2) - (b' + d2)\<bar> \<le> u * \<bar>b' + d2\<bar>"
    by (rule accurateD[OF acc2], simp only: ops list.set insert_iff, blast)+
  have x: "\<bar>E - m'\<bar> \<le> 54 * U" using me by linarith
  have nd: "\<bar>d2\<bar> \<le> 2 * 54 * U" unfolding dd using R3 u0 u1 x by (rule rnd_abs)
  have xa: "\<bar>a' + d2\<bar> \<le> 122 * M" using na nd U1 by linarith
  have ea: "\<bar>rnd (a' + d2) - (a' + d2)\<bar> \<le> 122 * (u * M)" using R4 u0 xa by (rule rnd_err)
  have xb: "\<bar>b' + d2\<bar> \<le> 122 * M" using nb nd U1 by linarith
  have eb: "\<bar>rnd (b' + d2) - (b' + d2)\<bar> \<le> 122 * (u * M)" using R5 u0 xb by (rule rnd_err)
  have "\<bar>rnd (a' + d2) - a'\<bar> \<le> 230 * U" using ea nd unfolding U_def[symmetric] by linarith
  then show "\<bar>fadd rnd a' d2 - a'\<bar> \<le> 230 * u * (\<bar>a\<bar> + \<bar>b\<bar> + \<bar>E\<bar>)"
    by (simp add: fadd_def M_def U_def mult.assoc)
  have "\<bar>rnd (b' + d2) - b'\<bar> \<le> 230 * U" using eb nd unfolding U_def[symmetric] by linarith
  then show "\<bar>fadd rnd b' d2 - b'\<bar> \<le> 230 * u * (\<bar>a\<bar> + \<bar>b\<bar> + \<bar>E\<bar>)"
    by (simp add: fadd_def M_def U_def mult.assoc)
qed

lemma set_element_elevation_success:
  assumes "doc i = Some el" "Location el = LocationCurve c"
    and "GetEndPoint c 0 = Inr s" "GetEndPoint c 1 = Inr t"
    and "d = fsub rnd E (fdiv rnd (fadd rnd (Z s) (Z t)) 2)"
    and "s' = \<lparr>X = X s, Y = Y s, Z = fadd rnd (Z s) d\<rparr>"
    and "t' = \<lparr>X = X t, Y = Y t, Z = fadd rnd (Z t) d\<rparr>"
    and "\<not> CreateBound_raises h s' t'" "\<not> set_Curve_raises h el (Line s' t')"
  shows "set_element_elevation rnd h doc i E =
           Inr (True, doc(i \<mapsto> el\<lparr>Location := LocationCurve (Line s' t')\<rparr>))"
  using assms
  by (simp add: set_element_elevation_def set_element_elevation_body_def CreateBound_def
      set_Curve_def Let_def)

lemma set_element_elevation_cases:
  assumes "set_element_elevation rnd h doc i E = Inr (ok, doc')"
  shows "(\<not> ok \<and> doc' = doc) \<or>
         (ok \<and> (\<exists>el c s t. doc i = Some el \<and> Location el = LocationCurve c
              \<and> GetEndPoint c 0 = Inr s \<and> GetEndPoint c 1 = Inr t
              \<and> doc' = doc(i \<mapsto> el\<lparr>Location := LocationCurve (Line
                   \<lparr>X = X s, Y = Y s, Z = fadd rnd (Z s) (fsub rnd E (fdiv rnd (fadd rnd (Z s) (Z t)) 2))\<rparr>
                   \<lparr>X = X t, Y = Y t, Z = fadd rnd (Z t) (fsub rnd E (fdiv rnd (fadd rnd (Z s) (Z t)) 2))\<rparr>)\<rparr>)))"
  using assms
  by (auto simp: set_element_elevation_def set_element_elevation_body_def CreateBound_def
      set_Curve_def Let_def split: option.splits Location.splits sum.splits if_splits)

lemma get_element_middle_elevation_curve:
  assumes "doc i = Some el" "Location el = LocationCurve c"
    and "GetEndPoint c 0 = Inr s" "GetEndPoint c 1 = Inr t"
  shows "get_element_middle_elevation rnd doc i = Inr (Some (fdiv rnd (fadd rnd (Z s) (Z t)) 2))"
  using assms
  by (simp add: get_element_middle_elevation_def get_element_middle_elevation_body_def Let_def)


section \<open>The loops\<close>

lemma alerts_append: "alerts (xs @ ys) = alerts xs @ alerts ys"
  by (induction xs rule: alerts.induct) simp_all

lemma picked_targets_append: "picked_targets (xs @ ys) = picked_targets xs @ picked_targets ys"
  by (induction xs rule: picked_targets.induct) simp_all

lemma PickObject_Returned:
  "PickObject allow doc ins = (Returned i, rest) \<Longrightarrow> \<exists>el. doc i = Some el \<and> allow el = Inr True"
proof (induction ins)
  case Nil
  then show ?case by simp
next
  case (Cons a ins)
  show ?case
  proof (cases a)
    case (Click j)
    show ?thesis
    proof (cases "PickObject allow doc (a # ins) = PickObject allow doc ins")
      case True
      with Cons show ?thesis by simp
    next
      case False
      with Cons.prems Click show ?thesis
        by (auto split: option.splits sum.splits if_splits)
    qed
  qed (use Cons.prems in auto)
qed

lemma set_element_elevation_Inr: "set_element_elevation rnd h doc i E \<noteq> Inl e"
  by (simp add: set_element_elevation_def split: sum.splits)

lemma target_loop_count:
  "count (target_loop rnd h int_of src doc ins counter evs) + length (picked_targets evs) =
     counter + length (picked_targets (events (target_loop rnd h int_of src doc ins counter evs)))"
proof (induction rnd h int_of src doc ins counter evs rule: target_loop.induct)
  case (1 rnd h int_of src doc ins counter evs)
  show ?case
  proof (cases "PickObject (AllowElement int_of) doc ins")
    case (Pair r rest)
    show ?thesis
    proof (cases r)
      case (Returned i)
      show ?thesis
      proof (cases "set_element_elevation rnd h doc i src")
        case (Inl e)
        then show ?thesis by (simp add: set_element_elevation_Inr)
      next
        case (Inr p)
        obtain ok doc' where p: "p = (ok, doc')" by (cases p)
        from "1.IH"[OF Pair[symmetric] Returned Inr p[symmetric]] Pair Returned Inr p
        show ?thesis
          apply (subst target_loop.simps)
          apply (subst (2) target_loop.simps)
          by (simp add: picked_targets_append)
      qed
    qed (use Pair in \<open>simp_all add: target_loop.simps picked_targets_append\<close>)
  qed
qed

lemma AllowElement_loop_iff: "AllowElement_loop int_of v cats \<longleftrightarrow> v \<in> int_of ` set cats"
  by (induction cats) auto

lemma AllowElement_iff:
  "AllowElement int_of el = Inr True \<longleftrightarrow> (\<exists>v. Category el = Some v \<and> v \<in> int_of ` set categories)"
  by (cases "Category el") (simp_all add: AllowElement_def AllowElement_loop_iff)

lemma AllowElement_Category:
  "Category el' = Category el \<Longrightarrow> AllowElement int_of el' = AllowElement int_of el"
  by (simp add: AllowElement_def)

lemma set_element_elevation_Category:
  assumes "set_element_elevation rnd h doc i E = Inr (ok, doc')"
  shows "map_option Category (doc' j) = map_option Category (doc j)"
  using set_element_elevation_cases[OF assms] by auto

lemma target_loop_picks:
  assumes "Pick p (Returned i) \<in> set (events (target_loop rnd h int_of src doc ins counter evs))"
    and "\<And>j. map_option Category (doc j) = map_option Category (doc0 j)"
  shows "Pick p (Returned i) \<in> set evs \<or> (\<exists>el. doc0 i = Some el \<and> AllowElement int_of el = Inr True)"
  using assms
proof (induction rnd h int_of src doc ins counter evs rule: target_loop.induct)
  case (1 rnd h int_of src doc ins counter evs)
  show ?case
  proof (cases "PickObject (AllowElement int_of) doc ins")
    case (Pair r rest)
    show ?thesis
    proof (cases r)
      case (Returned t)
      from PickObject_Returned[of "AllowElement int_of" doc ins t rest] Pair Returned
      obtain el where el: "doc t = Some el" "AllowElement int_of el = Inr True" by auto
      from "1.prems"(2)[of t] el(1) obtain el0 where el0: "doc0 t = Some el0" "Category el0 = Category el"
        by (cases "doc0 t") auto
      then have here: "\<exists>el. doc0 t = Some el \<and> AllowElement int_of el = Inr True"
        using el(2) AllowElement_Category[of el0 el int_of] by simp
      show ?thesis
      proof (cases "set_element_elevation rnd h doc t src")
        case (Inl e)
        then show ?thesis by (simp add: set_element_elevation_Inr)
      next
        case (Inr q)
        obtain ok doc' where q: "q = (ok, doc')" by (cases q)
        have cat: "\<And>j. map_option Category (doc' j) = map_option Category (doc0 j)"
          using set_element_elevation_Category[of rnd h doc t src ok doc'] Inr q "1.prems"(2) by simp
        have "Pick p (Returned i) \<in> set (events (target_loop rnd h int_of src doc' rest (counter + 1)
                 (evs @ [Pick Target (Returned t), Transaction_committed])))"
          using "1.prems"(1) Pair Returned Inr q by (subst (asm) target_loop.simps) simp
        from "1.IH"[OF Pair[symmetric] Returned Inr q[symmetric] this cat] here
        show ?thesis by auto
      qed
    next
      case (Raised e)
      with "1.prems"(1) Pair show ?thesis by (subst (asm) target_loop.simps) auto
    next
      case Pending
      with "1.prems"(1) Pair show ?thesis by (subst (asm) target_loop.simps) auto
    qed
  qed
qed

lemma paste_loop_alerts:
  "alerts (events (paste_loop pr a b p s doc ins n evs)) = alerts evs \<or>
   alerts (events (paste_loop pr a b p s doc ins n evs)) = alerts evs @ [Selection_Error]"
proof (induction pr a b p s doc ins n evs rule: paste_loop.induct)
  case (1 pr a b p s doc ins n evs)
  show ?case
  proof (cases "PickObject Dimension_AllowElement doc ins")
    case (Pair r rest)
    show ?thesis
    proof (cases r)
      case (Returned t)
      show ?thesis
      proof (cases "paste pr a b p s doc t")
        case (Inl e)
        with Pair Returned show ?thesis
          by (subst paste_loop.simps, subst (2) paste_loop.simps) (simp add: alerts_append)
      next
        case (Inr doc')
        from "1.IH"[OF Pair[symmetric] Returned Inr] Pair Returned Inr show ?thesis
          by (subst paste_loop.simps, subst (2) paste_loop.simps) (simp add: alerts_append)
      qed
    next
      case (Raised e)
      with Pair show ?thesis
        by (subst paste_loop.simps, subst (2) paste_loop.simps) (simp add: alerts_append)
    next
      case Pending
      with Pair show ?thesis
        by (subst paste_loop.simps, subst (2) paste_loop.simps) (simp add: alerts_append)
    qed
  qed
qed

lemma paste_loop_events:
  "\<exists>r es. events (paste_loop pr a b p s doc ins n evs) = evs @ Pick Target r # es"
proof (induction pr a b p s doc ins n evs rule: paste_loop.induct)
  case (1 pr a b p s doc ins n evs)
  show ?case
  proof (cases "PickObject Dimension_AllowElement doc ins")
    case (Pair r rest)
    show ?thesis
    proof (cases r)
      case (Returned t)
      show ?thesis
      proof (cases "paste pr a b p s doc t")
        case (Inl e)
        with Pair Returned show ?thesis by (subst paste_loop.simps) simp
      next
        case (Inr doc')
        from "1.IH"[OF Pair[symmetric] Returned Inr] Pair Returned Inr show ?thesis
          by (subst paste_loop.simps) auto
      qed
    next
      case (Raised e)
      with Pair show ?thesis by (subst paste_loop.simps) simp
    next
      case Pending
      with Pair show ?thesis by (subst paste_loop.simps) simp
    qed
  qed
qed

lemma final_feedback_events:
  "\<exists>es. events (final_feedback st) = events st @ es \<and> alerts es \<noteq> [No_Text_Found] \<and>
        (es = [] \<or> es = [Alert (Success (count st))] \<or> es = [Alert Finished_none_updated])"
  by (simp add: final_feedback_def)

lemma truthy_iff: "\<not> truthy t \<longleftrightarrow> t = None \<or> t = Some []"
  by (cases t) simp_all


text \<open>A session in which the operator presses ESC at some point returns.\<close>

lemma PickObject_Esc:
  assumes "Esc \<in> set ins"
  shows "fst (PickObject allow doc ins) \<noteq> Pending \<and>
         (\<forall>i. fst (PickObject allow doc ins) = Returned i \<longrightarrow> Esc \<in> set (snd (PickObject allow doc ins)))"
  using assms
proof (induction ins)
  case Nil
  then show ?case by simp
next
  case (Cons a ins)
  show ?case
  proof (cases a)
    case (Click j)
    with Cons show ?thesis by (auto split: option.splits sum.splits)
  qed (use Cons.prems in auto)
qed


lemma target_loop_returns:
  "Esc \<in> set ins \<Longrightarrow> returned (target_loop rnd h int_of src doc ins counter evs)"
proof (induction rnd h int_of src doc ins counter evs rule: target_loop.induct)
  case (1 rnd h int_of src doc ins counter evs)
  show ?case
  proof (cases "PickObject (AllowElement int_of) doc ins")
    case (Pair r rest)
    show ?thesis
    proof (cases r)
      case (Returned t)
      have esc: "Esc \<in> set rest"
        using PickObject_Esc[OF "1.prems", of "AllowElement int_of" doc] Pair Returned by simp
      show ?thesis
      proof (cases "set_element_elevation rnd h doc t src")
        case (Inl e)
        with Pair Returned show ?thesis by (subst target_loop.simps) simp
      next
        case (Inr q)
        obtain ok doc' where q: "q = (ok, doc')" by (cases q)
        from "1.IH"[OF Pair[symmetric] Returned Inr q[symmetric] esc] Pair Returned Inr q show ?thesis
          by (subst target_loop.simps) simp
      qed
    next
      case (Raised e)
      with Pair show ?thesis by (subst target_loop.simps) simp
    next
      case Pending
      with PickObject_Esc[OF "1.prems", of "AllowElement int_of" doc] Pair show ?thesis by simp
    qed
  qed
qed

lemma main_elevation_returns:
  "Esc \<in> set ins \<Longrightarrow> returned (main_elevation rnd h int_of doc ins)"
proof -
  assume esc: "Esc \<in> set ins"
  obtain r rest where p: "PickObject (AllowElement int_of) doc ins = (r, rest)"
    by (cases "PickObject (AllowElement int_of) doc ins")
  from PickObject_Esc[OF esc, of "AllowElement int_of" doc] p
  have np: "r \<noteq> Pending" and rest: "\<And>i. r = Returned i \<Longrightarrow> Esc \<in> set rest" by simp_all
  show ?thesis
  proof (cases r)
    case (Returned i)
    with p rest[OF Returned] show ?thesis
      by (simp add: main_elevation_def target_loop_returns split: sum.splits option.splits)
  qed (use p np in \<open>simp_all add: main_elevation_def\<close>)
qed




section \<open>The elevation transform\<close>

text \<open>
  C1. The spec's \<open>computeMidpoint\<close> and \<open>shiftToMidpoint\<close> are
  \<open>get_element_middle_elevation\<close> and the arithmetic of \<open>set_element_elevation\<close>. For an
  element whose curve has the end points \<open>s\<close> and \<open>t\<close>, and a host that accepts the new
  line: the middle elevation is \<open>m = (Z s + Z t) / 2\<close>; \<open>set_element_elevation\<close> returns
  \<open>True\<close> and replaces the curve by the line whose end points keep \<open>X\<close> and \<open>Y\<close> and
  have \<open>delta = E - m\<close> added to \<open>Z\<close>; and the middle elevation of the new curve is \<open>E\<close>
  within the floating-point tolerance: when each of the seven operations has a relative
  error of at most \<open>u\<close>, it differs from \<open>E\<close> by at most
  \<open>54 * u * (\<bar>Z s\<bar> + \<bar>Z t\<bar> + \<bar>E\<bar>)\<close>, and it is \<open>E\<close> itself in exact arithmetic.
\<close>

theorem shift_to_midpoint:
  fixes rnd :: rounding and u E m delta :: real
  assumes el: "doc i = Some el" and loc: "Location el = LocationCurve c"
    and s: "GetEndPoint c 0 = Inr s" and t: "GetEndPoint c 1 = Inr t"
    and m: "m = fdiv rnd (fadd rnd (Z s) (Z t)) 2"
    and delta: "delta = fsub rnd E m"
    and s': "s' = \<lparr>X = X s, Y = Y s, Z = fadd rnd (Z s) delta\<rparr>"
    and t': "t' = \<lparr>X = X t, Y = Y t, Z = fadd rnd (Z t) delta\<rparr>"
    and host: "\<not> CreateBound_raises h s' t'" "\<not> set_Curve_raises h el (Line s' t')"
    and doc': "doc' = doc(i \<mapsto> el\<lparr>Location := LocationCurve (Line s' t')\<rparr>)"
    and u0: "0 \<le> u" and u1: "u \<le> 1"
    and acc: "accurate rnd u (shift_operations rnd (Z s) (Z t) E @
                             middle_operations rnd (Z s') (Z t'))"
  shows "get_element_middle_elevation rnd doc i = Inr (Some m) \<and>
         set_element_elevation rnd h doc i E = Inr (True, doc') \<and>
         (\<exists>m'. get_element_middle_elevation rnd doc' i = Inr (Some m') \<and>
               \<bar>m' - E\<bar> \<le> 54 * u * (\<bar>Z s\<bar> + \<bar>Z t\<bar> + \<bar>E\<bar>) \<and> (u = 0 \<longrightarrow> m' = E))"
proof -
  have 1: "get_element_middle_elevation rnd doc i = Inr (Some m)"
    unfolding m using el loc s t by (rule get_element_middle_elevation_curve)
  have 2: "set_element_elevation rnd h doc i E = Inr (True, doc')"
    unfolding doc' using el loc s t _ s' t' host
    by (rule set_element_elevation_success) (simp add: delta m)
  define m' where "m' = fdiv rnd (fadd rnd (Z s') (Z t')) 2"
  have 3: "get_element_middle_elevation rnd doc' i = Inr (Some m')"
    unfolding m'_def
    by (rule get_element_middle_elevation_curve[where el = "el\<lparr>Location := LocationCurve (Line s' t')\<rparr>"
          and c = "Line s' t'"]) (simp_all add: doc')
  from acc have a1: "accurate rnd u (shift_operations rnd (Z s) (Z t) E)"
    and a2: "accurate rnd u (middle_operations rnd (Z s') (Z t'))"
    by (simp_all add: accurate_append)
  have 4: "\<bar>m' - E\<bar> \<le> 54 * u * (\<bar>Z s\<bar> + \<bar>Z t\<bar> + \<bar>E\<bar>)"
    using midpoint_error[OF u0 u1 a1] a2
    by (simp add: m'_def s' t' delta m)
  from 4 have 5: "u = 0 \<longrightarrow> m' = E" by auto
  from 1 2 3 4 5 show ?thesis by blast
qed

text \<open>
  In binary64 arithmetic: the segment with the elevations 0 and 1 is shifted to the
  float \<open>0.2\<close>; every operation is accurate to \<open>2 ^ -53\<close>, and the middle elevation of
  the result, \<open>0.19999999999999998\<close>, is within the bound.
\<close>

theorem shift_to_midpoint_witness:
  "accurate round_binary64 (1 / 2 ^ 53)
     (shift_operations round_binary64 0 1 float_0_2 @
      middle_operations round_binary64 (- 5404319552844595 / 2 ^ 54) (3152519739159347 / 2 ^ 52)) \<and>
   get_element_middle_elevation round_binary64
     (one_curve (Line \<lparr>X = 0, Y = 0, Z = 0\<rparr> \<lparr>X = 1, Y = 0, Z = 1\<rparr>)) 0 = Inr (Some (1 / 2)) \<and>
   set_element_elevation round_binary64 plain_host
     (one_curve (Line \<lparr>X = 0, Y = 0, Z = 0\<rparr> \<lparr>X = 1, Y = 0, Z = 1\<rparr>)) 0 float_0_2 =
     Inr (True, one_curve (Line
        \<lparr>X = 0, Y = 0, Z = - 5404319552844595 / 2 ^ 54\<rparr> \<lparr>X = 1, Y = 0, Z = 3152519739159347 / 2 ^ 52\<rparr>)) \<and>
   get_element_middle_elevation round_binary64
     (one_curve (Line
        \<lparr>X = 0, Y = 0, Z = - 5404319552844595 / 2 ^ 54\<rparr> \<lparr>X = 1, Y = 0, Z = 3152519739159347 / 2 ^ 52\<rparr>)) 0 =
     Inr (Some (7205759403792793 / 2 ^ 55)) \<and>
   \<bar>7205759403792793 / 2 ^ 55 - float_0_2\<bar> \<le> 54 * (1 / 2 ^ 53) * (\<bar>0\<bar> + \<bar>1\<bar> + \<bar>float_0_2\<bar>)"
proof -
  define s :: XYZ where "s = \<lparr>X = 0, Y = 0, Z = 0\<rparr>"
  define t :: XYZ where "t = \<lparr>X = 1, Y = 0, Z = 1\<rparr>"
  define s' :: XYZ where "s' = \<lparr>X = 0, Y = 0, Z = - 5404319552844595 / 2 ^ 54\<rparr>"
  define t' :: XYZ where "t' = \<lparr>X = 1, Y = 0, Z = 3152519739159347 / 2 ^ 52\<rparr>"
  define el where "el = \<lparr>Category = Some 0, Location = LocationCurve (Line s t)\<rparr>"
  have acc: "accurate round_binary64 (1 / 2 ^ 53)
     (shift_operations round_binary64 0 1 float_0_2 @
      middle_operations round_binary64 (- 5404319552844595 / 2 ^ 54) (3152519739159347 / 2 ^ 52))"
    by code_simp
  have z: "- 5404319552844595 / 2 ^ 54 =
      fadd round_binary64 0 (fsub round_binary64 float_0_2 (fdiv round_binary64 (fadd round_binary64 0 1) 2))"
    "3152519739159347 / 2 ^ 52 =
      fadd round_binary64 1 (fsub round_binary64 float_0_2 (fdiv round_binary64 (fadd round_binary64 0 1) 2))"
    by code_simp+
  have mid: "fdiv round_binary64 (fadd round_binary64 0 1) 2 = 1 / 2"
    "fdiv round_binary64 (fadd round_binary64 (- 5404319552844595 / 2 ^ 54) (3152519739159347 / 2 ^ 52)) 2
       = 7205759403792793 / 2 ^ 55"
    by code_simp+
  have same: "(one_curve (Line s t))(0 \<mapsto> el\<lparr>Location := LocationCurve (Line s' t')\<rparr>) = one_curve (Line s' t')"
    by (simp add: fun_eq_iff one_curve_def el_def)
  have g: "get_element_middle_elevation round_binary64 (one_curve (Line s' t')) 0 =
      Inr (Some (7205759403792793 / 2 ^ 55))"
    using get_element_middle_elevation_curve[where doc = "one_curve (Line s' t')" and i = 0
        and c = "Line s' t'" and s = s' and t = t' and rnd = round_binary64
        and el = "\<lparr>Category = Some 0, Location = LocationCurve (Line s' t')\<rparr>"]
    unfolding s'_def t'_def XYZ.simps mid(2) by (simp add: one_curve_def)
  have inst: "get_element_middle_elevation round_binary64 (one_curve (Line s t)) 0 =
        Inr (Some (fdiv round_binary64 (fadd round_binary64 (Z s) (Z t)) 2)) \<and>
      set_element_elevation round_binary64 plain_host (one_curve (Line s t)) 0 float_0_2 =
        Inr (True, (one_curve (Line s t))(0 \<mapsto> el\<lparr>Location := LocationCurve (Line s' t')\<rparr>)) \<and>
      (\<exists>m'. get_element_middle_elevation round_binary64
              ((one_curve (Line s t))(0 \<mapsto> el\<lparr>Location := LocationCurve (Line s' t')\<rparr>)) 0 = Inr (Some m') \<and>
            \<bar>m' - float_0_2\<bar> \<le> 54 * (1 / 2 ^ 53) * (\<bar>Z s\<bar> + \<bar>Z t\<bar> + \<bar>float_0_2\<bar>) \<and>
            (1 / 2 ^ 53 = (0::real) \<longrightarrow> m' = float_0_2))"
  proof (rule shift_to_midpoint[where c = "Line s t" and s = s and t = t and s' = s' and t' = t'
        and el = el, OF _ _ _ _ refl refl])
    show "one_curve (Line s t) 0 = Some el" by (simp add: one_curve_def el_def)
    show "Location el = LocationCurve (Line s t)" by (simp add: el_def)
    show "GetEndPoint (Line s t) 0 = Inr s" "GetEndPoint (Line s t) 1 = Inr t" by simp_all
    show "s' = \<lparr>X = X s, Y = Y s, Z = fadd round_binary64 (Z s)
            (fsub round_binary64 float_0_2 (fdiv round_binary64 (fadd round_binary64 (Z s) (Z t)) 2))\<rparr>"
      unfolding s'_def s_def t_def XYZ.simps by (subst z(1)[symmetric]) (rule refl)
    show "t' = \<lparr>X = X t, Y = Y t, Z = fadd round_binary64 (Z t)
            (fsub round_binary64 float_0_2 (fdiv round_binary64 (fadd round_binary64 (Z s) (Z t)) 2))\<rparr>"
      unfolding t'_def s_def t_def XYZ.simps by (subst z(2)[symmetric]) (rule refl)
    show "\<not> CreateBound_raises plain_host s' t'" by (simp add: plain_host_def s'_def t'_def)
    show "\<not> set_Curve_raises plain_host el (Line s' t')" by (simp add: plain_host_def)
    show "(one_curve (Line s t))(0 \<mapsto> el\<lparr>Location := LocationCurve (Line s' t')\<rparr>) =
          (one_curve (Line s t))(0 \<mapsto> el\<lparr>Location := LocationCurve (Line s' t')\<rparr>)" ..
    show "(0::real) \<le> 1 / 2 ^ 53" "(1::real) / 2 ^ 53 \<le> 1" by simp_all
    show "accurate round_binary64 (1 / 2 ^ 53)
       (shift_operations round_binary64 (Z s) (Z t) float_0_2 @
        middle_operations round_binary64 (Z s') (Z t'))"
      unfolding s_def t_def s'_def t'_def XYZ.simps by (rule acc)
  qed
  from inst have a: "get_element_middle_elevation round_binary64 (one_curve (Line s t)) 0 = Inr (Some (1 / 2))"
    unfolding s_def t_def XYZ.simps mid(1) by blast
  from inst have b: "set_element_elevation round_binary64 plain_host (one_curve (Line s t)) 0 float_0_2 =
        Inr (True, one_curve (Line s' t'))"
    unfolding same by blast
  from inst obtain m' where m': "get_element_middle_elevation round_binary64 (one_curve (Line s' t')) 0 = Inr (Some m')"
    "\<bar>m' - float_0_2\<bar> \<le> 54 * (1 / 2 ^ 53) * (\<bar>Z s\<bar> + \<bar>Z t\<bar> + \<bar>float_0_2\<bar>)"
    unfolding same by blast
  from m'(1) g have "m' = 7205759403792793 / 2 ^ 55" by simp
  with m'(2) have c: "\<bar>7205759403792793 / 2 ^ 55 - float_0_2\<bar> \<le> 54 * (1 / 2 ^ 53) * (\<bar>0\<bar> + \<bar>1\<bar> + \<bar>float_0_2\<bar>)"
    by (simp add: s_def t_def)
  show ?thesis
    using acc a b g c unfolding s_def t_def s'_def t'_def by (intro conjI)
qed

text \<open>
  C2. Whatever \<open>set_element_elevation\<close> returns, and under every rounding, the end points
  of the element's curve keep their \<open>X\<close> and \<open>Y\<close>, and so does the horizontal difference
  vector from the start to the end.
\<close>

theorem shift_keeps_horizontal:
  assumes run: "set_element_elevation rnd h doc i E = Inr (ok, doc')"
    and el: "doc i = Some el" and loc: "Location el = LocationCurve c"
    and s: "GetEndPoint c 0 = Inr s" and t: "GetEndPoint c 1 = Inr t"
  shows "\<exists>el' c' s' t'. doc' i = Some el' \<and> Location el' = LocationCurve c' \<and>
           GetEndPoint c' 0 = Inr s' \<and> GetEndPoint c' 1 = Inr t' \<and>
           X s' = X s \<and> Y s' = Y s \<and> X t' = X t \<and> Y t' = Y t \<and>
           (X t' - X s', Y t' - Y s') = (X t - X s, Y t - Y s)"
  using set_element_elevation_cases[OF run]
proof (elim disjE conjE exE)
  assume "doc' = doc"
  with el loc s t show ?thesis by auto
next
  fix el0 c0 s0 t0
  assume a: "doc i = Some el0" "Location el0 = LocationCurve c0"
    "GetEndPoint c0 0 = Inr s0" "GetEndPoint c0 1 = Inr t0"
    and d: "doc' = doc(i \<mapsto> el0\<lparr>Location := LocationCurve (Line
                   \<lparr>X = X s0, Y = Y s0, Z = fadd rnd (Z s0) (fsub rnd E (fdiv rnd (fadd rnd (Z s0) (Z t0)) 2))\<rparr>
                   \<lparr>X = X t0, Y = Y t0, Z = fadd rnd (Z t0) (fsub rnd E (fdiv rnd (fadd rnd (Z s0) (Z t0)) 2))\<rparr>)\<rparr>)"
  from a el loc s t have "s0 = s" "t0 = t" by auto
  with d show ?thesis by auto
qed

text \<open>The spec's scenario again, now in binary64 arithmetic.\<close>

theorem shift_keeps_horizontal_witness:
  "set_element_elevation round_binary64 plain_host
     (one_curve (Line \<lparr>X = 0, Y = 0, Z = 0\<rparr> \<lparr>X = 10, Y = 0, Z = 4\<rparr>)) 0 5 =
     Inr (True, (one_curve (Line \<lparr>X = 0, Y = 0, Z = 0\<rparr> \<lparr>X = 10, Y = 0, Z = 4\<rparr>))
        (0 \<mapsto> \<lparr>Category = Some 0,
                Location = LocationCurve (Line \<lparr>X = 0, Y = 0, Z = 3\<rparr> \<lparr>X = 10, Y = 0, Z = 7\<rparr>)\<rparr>)) \<and>
   (\<exists>el' c' s' t'.
      ((one_curve (Line \<lparr>X = 0, Y = 0, Z = 0\<rparr> \<lparr>X = 10, Y = 0, Z = 4\<rparr>))
        (0 \<mapsto> \<lparr>Category = Some 0,
                Location = LocationCurve (Line \<lparr>X = 0, Y = 0, Z = 3\<rparr> \<lparr>X = 10, Y = 0, Z = 7\<rparr>)\<rparr>)) 0 = Some el' \<and>
      Location el' = LocationCurve c' \<and> GetEndPoint c' 0 = Inr s' \<and> GetEndPoint c' 1 = Inr t' \<and>
      X s' = 0 \<and> Y s' = 0 \<and> X t' = 10 \<and> Y t' = 0 \<and> (X t' - X s', Y t' - Y s') = (10, 0))"
proof -
  have r: "round_binary64 4 = 4" "round_binary64 2 = 2" "round_binary64 3 = 3"
    "round_binary64 7 = 7"
    by code_simp+
  have run: "set_element_elevation round_binary64 plain_host
     (one_curve (Line \<lparr>X = 0, Y = 0, Z = 0\<rparr> \<lparr>X = 10, Y = 0, Z = 4\<rparr>)) 0 5 =
     Inr (True, (one_curve (Line \<lparr>X = 0, Y = 0, Z = 0\<rparr> \<lparr>X = 10, Y = 0, Z = 4\<rparr>))
        (0 \<mapsto> \<lparr>Category = Some 0,
                Location = LocationCurve (Line \<lparr>X = 0, Y = 0, Z = 3\<rparr> \<lparr>X = 10, Y = 0, Z = 7\<rparr>)\<rparr>))"
    by (simp add: set_element_elevation_def set_element_elevation_body_def one_curve_def
        plain_host_def CreateBound_def set_Curve_def fadd_def fsub_def fdiv_def r)
  show ?thesis
    using shift_keeps_horizontal[OF run, where s = "\<lparr>X = 0, Y = 0, Z = 0\<rparr>" and t = "\<lparr>X = 10, Y = 0, Z = 4\<rparr>"
        and c = "Line \<lparr>X = 0, Y = 0, Z = 0\<rparr> \<lparr>X = 10, Y = 0, Z = 4\<rparr>"
        and el = "\<lparr>Category = Some 0, Location = LocationCurve (Line \<lparr>X = 0, Y = 0, Z = 0\<rparr> \<lparr>X = 10, Y = 0, Z = 4\<rparr>)\<rparr>"]
      run
    by (simp add: one_curve_def)
qed

text \<open>
  Two shifts to the float \<open>0.2\<close> of the segment whose end points have the elevations
  0 and 1, in binary64 arithmetic.
\<close>

lemma first_shift_binary64:
  "set_element_elevation round_binary64 plain_host
      (one_curve (Line \<lparr>X = 0, Y = 0, Z = 0\<rparr> \<lparr>X = 1, Y = 0, Z = 1\<rparr>)) 0 float_0_2 =
   Inr (True, one_curve (Line
        \<lparr>X = 0, Y = 0, Z = - 5404319552844595 / 2 ^ 54\<rparr> \<lparr>X = 1, Y = 0, Z = 3152519739159347 / 2 ^ 52\<rparr>))"
proof -
  have z: "fadd round_binary64 0 (fsub round_binary64 float_0_2 (fdiv round_binary64 (fadd round_binary64 0 1) 2))
            = - 5404319552844595 / 2 ^ 54"
    "fadd round_binary64 1 (fsub round_binary64 float_0_2 (fdiv round_binary64 (fadd round_binary64 0 1) 2))
            = 3152519739159347 / 2 ^ 52"
    by code_simp+
  show ?thesis
    by (simp add: set_element_elevation_def set_element_elevation_body_def one_curve_def
        plain_host_def CreateBound_def set_Curve_def z fun_eq_iff)
qed

lemma second_shift_binary64:
  "set_element_elevation round_binary64 plain_host
      (one_curve (Line
        \<lparr>X = 0, Y = 0, Z = - 5404319552844595 / 2 ^ 54\<rparr> \<lparr>X = 1, Y = 0, Z = 3152519739159347 / 2 ^ 52\<rparr>))
      0 float_0_2 =
   Inr (True, one_curve (Line
        \<lparr>X = 0, Y = 0, Z = - 2702159776422297 / 2 ^ 53\<rparr> \<lparr>X = 1, Y = 0, Z = 3152519739159347 / 2 ^ 52\<rparr>))"
proof -
  define s :: XYZ where "s = \<lparr>X = 0, Y = 0, Z = - 5404319552844595 / 2 ^ 54\<rparr>"
  define t :: XYZ where "t = \<lparr>X = 1, Y = 0, Z = 3152519739159347 / 2 ^ 52\<rparr>"
  define s' :: XYZ where "s' = \<lparr>X = 0, Y = 0, Z = - 2702159776422297 / 2 ^ 53\<rparr>"
  define el where "el = \<lparr>Category = Some 0, Location = LocationCurve (Line s t)\<rparr>"
  have z: "- 2702159776422297 / 2 ^ 53 =
            fadd round_binary64 (- 5404319552844595 / 2 ^ 54) (fsub round_binary64 float_0_2
             (fdiv round_binary64 (fadd round_binary64 (- 5404319552844595 / 2 ^ 54) (3152519739159347 / 2 ^ 52)) 2))"
    "3152519739159347 / 2 ^ 52 =
            fadd round_binary64 (3152519739159347 / 2 ^ 52) (fsub round_binary64 float_0_2
             (fdiv round_binary64 (fadd round_binary64 (- 5404319552844595 / 2 ^ 54) (3152519739159347 / 2 ^ 52)) 2))"
    by code_simp+
  have "set_element_elevation round_binary64 plain_host (one_curve (Line s t)) 0 float_0_2 =
          Inr (True, (one_curve (Line s t))(0 \<mapsto> el\<lparr>Location := LocationCurve (Line s' t)\<rparr>))"
  proof (rule set_element_elevation_success[where el = el and c = "Line s t" and s = s and t = t])
    show "one_curve (Line s t) 0 = Some el" by (simp add: one_curve_def el_def)
    show "Location el = LocationCurve (Line s t)" by (simp add: el_def)
    show "GetEndPoint (Line s t) 0 = Inr s" "GetEndPoint (Line s t) 1 = Inr t" by simp_all
    show "fsub round_binary64 float_0_2 (fdiv round_binary64 (fadd round_binary64 (Z s) (Z t)) 2) =
          fsub round_binary64 float_0_2 (fdiv round_binary64 (fadd round_binary64 (Z s) (Z t)) 2)" ..
    show "s' = \<lparr>X = X s, Y = Y s, Z = fadd round_binary64 (Z s)
            (fsub round_binary64 float_0_2 (fdiv round_binary64 (fadd round_binary64 (Z s) (Z t)) 2))\<rparr>"
      unfolding s'_def s_def t_def XYZ.simps by (subst z(1)[symmetric]) (rule refl)
    show "t = \<lparr>X = X t, Y = Y t, Z = fadd round_binary64 (Z t)
            (fsub round_binary64 float_0_2 (fdiv round_binary64 (fadd round_binary64 (Z s) (Z t)) 2))\<rparr>"
      unfolding s_def t_def XYZ.simps by (subst z(2)[symmetric]) (rule refl)
    show "\<not> CreateBound_raises plain_host s' t" by (simp add: plain_host_def s'_def t_def)
    show "\<not> set_Curve_raises plain_host el (Line s' t)" by (simp add: plain_host_def)
  qed
  moreover have "(one_curve (Line s t))(0 \<mapsto> el\<lparr>Location := LocationCurve (Line s' t)\<rparr>) = one_curve (Line s' t)"
    by (simp add: fun_eq_iff one_curve_def el_def)
  ultimately show ?thesis by (simp add: s_def t_def s'_def)
qed

text \<open>
  C6, as stated, fails on floats. The first shift of the segment with the elevations 0
  and 1 to \<open>0.2\<close> gives the elevations \<open>-0.3\<close> and \<open>0.7\<close> (the floats nearest to them),
  whose middle \<open>0.19999999999999998\<close> is not \<open>0.2\<close>; the second shift moves the start
  point again, to \<open>-0.29999999999999993\<close>.
\<close>

theorem shift_twice_counterexample:
  "set_element_elevation round_binary64 plain_host
      (one_curve (Line \<lparr>X = 0, Y = 0, Z = 0\<rparr> \<lparr>X = 1, Y = 0, Z = 1\<rparr>)) 0 float_0_2 =
   Inr (True, one_curve (Line
        \<lparr>X = 0, Y = 0, Z = - 5404319552844595 / 2 ^ 54\<rparr> \<lparr>X = 1, Y = 0, Z = 3152519739159347 / 2 ^ 52\<rparr>)) \<and>
   set_element_elevation round_binary64 plain_host
      (one_curve (Line
        \<lparr>X = 0, Y = 0, Z = - 5404319552844595 / 2 ^ 54\<rparr> \<lparr>X = 1, Y = 0, Z = 3152519739159347 / 2 ^ 52\<rparr>))
      0 float_0_2 =
   Inr (True, one_curve (Line
        \<lparr>X = 0, Y = 0, Z = - 2702159776422297 / 2 ^ 53\<rparr> \<lparr>X = 1, Y = 0, Z = 3152519739159347 / 2 ^ 52\<rparr>)) \<and>
   one_curve (Line
        \<lparr>X = 0, Y = 0, Z = - 2702159776422297 / 2 ^ 53\<rparr> \<lparr>X = 1, Y = 0, Z = 3152519739159347 / 2 ^ 52\<rparr>) 0 \<noteq>
   one_curve (Line
        \<lparr>X = 0, Y = 0, Z = - 5404319552844595 / 2 ^ 54\<rparr> \<lparr>X = 1, Y = 0, Z = 3152519739159347 / 2 ^ 52\<rparr>) 0"
  using first_shift_binary64 second_shift_binary64 by (simp add: one_curve_def)

text \<open>
  C6, amended. A second shift to the same elevation keeps \<open>X\<close> and \<open>Y\<close> of both end
  points and moves each \<open>Z\<close> by at most \<open>230 * u * (\<bar>Z s\<bar> + \<bar>Z t\<bar> + \<bar>E\<bar>)\<close>, where \<open>s\<close>
  and \<open>t\<close> are the end points before the first shift and \<open>u\<close> bounds the relative error
  of each operation of the two shifts; in exact arithmetic it changes nothing.
\<close>

theorem shift_twice_within_rounding:
  fixes rnd :: rounding and u E :: real
  assumes el: "doc i = Some el" and loc: "Location el = LocationCurve c"
    and s: "GetEndPoint c 0 = Inr s" and t: "GetEndPoint c 1 = Inr t"
    and run1: "set_element_elevation rnd h doc i E = Inr (ok1, doc1)"
    and el1: "doc1 i = Some el1" and loc1: "Location el1 = LocationCurve c1"
    and s1: "GetEndPoint c1 0 = Inr s1" and t1: "GetEndPoint c1 1 = Inr t1"
    and run2: "set_element_elevation rnd h doc1 i E = Inr (ok2, doc2)"
    and u0: "0 \<le> u" and u1: "u \<le> 1"
    and acc: "accurate rnd u (shift_operations rnd (Z s) (Z t) E @
                             shift_operations rnd (Z s1) (Z t1) E)"
  shows "\<exists>el2 c2 s2 t2.
           doc2 i = Some el2 \<and> Location el2 = LocationCurve c2 \<and>
           GetEndPoint c2 0 = Inr s2 \<and> GetEndPoint c2 1 = Inr t2 \<and>
           X s2 = X s1 \<and> Y s2 = Y s1 \<and> X t2 = X t1 \<and> Y t2 = Y t1 \<and>
           \<bar>Z s2 - Z s1\<bar> \<le> 230 * u * (\<bar>Z s\<bar> + \<bar>Z t\<bar> + \<bar>E\<bar>) \<and>
           \<bar>Z t2 - Z t1\<bar> \<le> 230 * u * (\<bar>Z s\<bar> + \<bar>Z t\<bar> + \<bar>E\<bar>) \<and>
           (u = 0 \<longrightarrow> doc2 = doc1)"
proof -
  define M where "M = \<bar>Z s\<bar> + \<bar>Z t\<bar> + \<bar>E\<bar>"
  have B0: "0 \<le> 230 * u * M" using u0 by (simp add: M_def)
  from acc have acc1: "accurate rnd u (shift_operations rnd (Z s) (Z t) E)"
    and acc2: "accurate rnd u (shift_operations rnd (Z s1) (Z t1) E)"
    by (simp_all add: accurate_append)
  have same: ?thesis if "doc2 = doc1"
    using that el1 loc1 s1 t1 B0 unfolding M_def
    by (intro exI[of _ el1] exI[of _ c1] exI[of _ s1] exI[of _ t1]) simp
  from set_element_elevation_cases[OF run1] show ?thesis
  proof (elim disjE conjE exE)
    assume "doc1 = doc"
    with run1 run2 have "doc2 = doc1" by simp
    then show ?thesis by (rule same)
  next
    fix el0 c0 s0 t0
    assume a: "doc i = Some el0" "Location el0 = LocationCurve c0"
      "GetEndPoint c0 0 = Inr s0" "GetEndPoint c0 1 = Inr t0"
      and d1: "doc1 = doc(i \<mapsto> el0\<lparr>Location := LocationCurve (Line
                 \<lparr>X = X s0, Y = Y s0, Z = fadd rnd (Z s0) (fsub rnd E (fdiv rnd (fadd rnd (Z s0) (Z t0)) 2))\<rparr>
                 \<lparr>X = X t0, Y = Y t0, Z = fadd rnd (Z t0) (fsub rnd E (fdiv rnd (fadd rnd (Z s0) (Z t0)) 2))\<rparr>)\<rparr>)"
    from a el loc s t have eq: "el0 = el" "s0 = s" "t0 = t" by auto
    define d where "d = fsub rnd E (fdiv rnd (fadd rnd (Z s) (Z t)) 2)"
    have z1: "Z s1 = fadd rnd (Z s) d" "Z t1 = fadd rnd (Z t) d"
      using d1 el1 loc1 s1 t1 by (auto simp: eq d_def)
    from set_element_elevation_cases[OF run2] show ?thesis
    proof (elim disjE conjE exE)
      assume "doc2 = doc1"
      then show ?thesis by (rule same)
    next
      fix el' c' s' t'
      assume b: "doc1 i = Some el'" "Location el' = LocationCurve c'"
        "GetEndPoint c' 0 = Inr s'" "GetEndPoint c' 1 = Inr t'"
        and d2: "doc2 = doc1(i \<mapsto> el'\<lparr>Location := LocationCurve (Line
                   \<lparr>X = X s', Y = Y s', Z = fadd rnd (Z s') (fsub rnd E (fdiv rnd (fadd rnd (Z s') (Z t')) 2))\<rparr>
                   \<lparr>X = X t', Y = Y t', Z = fadd rnd (Z t') (fsub rnd E (fdiv rnd (fadd rnd (Z s') (Z t')) 2))\<rparr>)\<rparr>)"
      from b el1 loc1 s1 t1 have eq': "el' = el1" "s' = s1" "t' = t1" by auto
      define e where "e = fsub rnd E (fdiv rnd (fadd rnd (Z s1) (Z t1)) 2)"
      define s2 where "s2 = \<lparr>X = X s1, Y = Y s1, Z = fadd rnd (Z s1) e\<rparr>"
      define t2 where "t2 = \<lparr>X = X t1, Y = Y t1, Z = fadd rnd (Z t1) e\<rparr>"
      define el2 where "el2 = el1\<lparr>Location := LocationCurve (Line s2 t2)\<rparr>"
      have d2': "doc2 = doc1(i \<mapsto> el2)" using d2 by (simp add: eq' el2_def s2_def t2_def e_def)
      have ok: "doc2 i = Some el2" "Location el2 = LocationCurve (Line s2 t2)"
        "GetEndPoint (Line s2 t2) 0 = Inr s2" "GetEndPoint (Line s2 t2) 1 = Inr t2"
        "X s2 = X s1" "Y s2 = Y s1" "X t2 = X t1" "Y t2 = Y t1"
        by (simp_all add: d2' el2_def s2_def t2_def)
      have zs: "\<bar>Z s2 - Z s1\<bar> \<le> 230 * u * M" and zt: "\<bar>Z t2 - Z t1\<bar> \<le> 230 * u * M"
        using second_shift_error[OF u0 u1 acc1 acc2[unfolded z1 d_def]]
        by (simp_all add: s2_def t2_def e_def z1 d_def M_def)
      have ex: "u = 0 \<longrightarrow> doc2 = doc1"
      proof
        assume "u = 0"
        with zs zt have "Z s2 = Z s1" "Z t2 = Z t1" by simp_all
        then have "s2 = s1" "t2 = t1" by (simp_all add: s2_def t2_def)
        moreover have "c1 = Line s1 t1"
          using d1 el1 loc1 s1 t1 by (auto simp: eq)
        ultimately have "el2 = el1" using loc1 by (simp add: el2_def)
        then show "doc2 = doc1" using d2' el1 by (simp add: fun_eq_iff)
      qed
      from ok zs zt ex show ?thesis unfolding M_def by blast
    qed
  qed
qed

text \<open>
  The two shifts of the counterexample: every operation is accurate to \<open>2 ^ -53\<close>, and
  the second shift moves the start point by \<open>2 ^ -54\<close>, within the bound.
\<close>

theorem shift_twice_within_rounding_witness:
  "accurate round_binary64 (1 / 2 ^ 53)
     (shift_operations round_binary64 0 1 float_0_2 @
      shift_operations round_binary64 (- 5404319552844595 / 2 ^ 54) (3152519739159347 / 2 ^ 52) float_0_2) \<and>
   set_element_elevation round_binary64 plain_host
      (one_curve (Line \<lparr>X = 0, Y = 0, Z = 0\<rparr> \<lparr>X = 1, Y = 0, Z = 1\<rparr>)) 0 float_0_2 =
     Inr (True, one_curve (Line
        \<lparr>X = 0, Y = 0, Z = - 5404319552844595 / 2 ^ 54\<rparr> \<lparr>X = 1, Y = 0, Z = 3152519739159347 / 2 ^ 52\<rparr>)) \<and>
   set_element_elevation round_binary64 plain_host
      (one_curve (Line
        \<lparr>X = 0, Y = 0, Z = - 5404319552844595 / 2 ^ 54\<rparr> \<lparr>X = 1, Y = 0, Z = 3152519739159347 / 2 ^ 52\<rparr>))
      0 float_0_2 =
     Inr (True, one_curve (Line
        \<lparr>X = 0, Y = 0, Z = - 2702159776422297 / 2 ^ 53\<rparr> \<lparr>X = 1, Y = 0, Z = 3152519739159347 / 2 ^ 52\<rparr>)) \<and>
   \<bar>- 2702159776422297 / 2 ^ 53 - (- 5404319552844595 / 2 ^ 54)\<bar>
      \<le> 230 * (1 / 2 ^ 53) * (\<bar>0\<bar> + \<bar>1\<bar> + \<bar>float_0_2\<bar>)"
proof -
  define s :: XYZ where "s = \<lparr>X = 0, Y = 0, Z = 0\<rparr>"
  define t :: XYZ where "t = \<lparr>X = 1, Y = 0, Z = 1\<rparr>"
  define s1 :: XYZ where "s1 = \<lparr>X = 0, Y = 0, Z = - 5404319552844595 / 2 ^ 54\<rparr>"
  define t1 :: XYZ where "t1 = \<lparr>X = 1, Y = 0, Z = 3152519739159347 / 2 ^ 52\<rparr>"
  define s2 :: XYZ where "s2 = \<lparr>X = 0, Y = 0, Z = - 2702159776422297 / 2 ^ 53\<rparr>"
  have acc: "accurate round_binary64 (1 / 2 ^ 53)
     (shift_operations round_binary64 0 1 float_0_2 @
      shift_operations round_binary64 (- 5404319552844595 / 2 ^ 54) (3152519739159347 / 2 ^ 52) float_0_2)"
    by code_simp
  have run1: "set_element_elevation round_binary64 plain_host (one_curve (Line s t)) 0 float_0_2 =
     Inr (True, one_curve (Line s1 t1))"
    unfolding s_def t_def s1_def t1_def by (rule first_shift_binary64)
  have run2: "set_element_elevation round_binary64 plain_host (one_curve (Line s1 t1)) 0 float_0_2 =
     Inr (True, one_curve (Line s2 t1))"
    unfolding s1_def t1_def s2_def by (rule second_shift_binary64)
  have "\<exists>el2 c2 p2 q2.
           one_curve (Line s2 t1) 0 = Some el2 \<and> Location el2 = LocationCurve c2 \<and>
           GetEndPoint c2 0 = Inr p2 \<and> GetEndPoint c2 1 = Inr q2 \<and>
           X p2 = X s1 \<and> Y p2 = Y s1 \<and> X q2 = X t1 \<and> Y q2 = Y t1 \<and>
           \<bar>Z p2 - Z s1\<bar> \<le> 230 * (1 / 2 ^ 53) * (\<bar>Z s\<bar> + \<bar>Z t\<bar> + \<bar>float_0_2\<bar>) \<and>
           \<bar>Z q2 - Z t1\<bar> \<le> 230 * (1 / 2 ^ 53) * (\<bar>Z s\<bar> + \<bar>Z t\<bar> + \<bar>float_0_2\<bar>) \<and>
           (1 / 2 ^ 53 = (0::real) \<longrightarrow> one_curve (Line s2 t1) = one_curve (Line s1 t1))"
  proof -
    have a: "one_curve (Line s t) 0 = Some \<lparr>Category = Some 0, Location = LocationCurve (Line s t)\<rparr>"
      by (simp add: one_curve_def)
    have b: "Location \<lparr>Category = Some 0, Location = LocationCurve (Line s t)\<rparr> = LocationCurve (Line s t)"
      by simp
    have c: "GetEndPoint (Line s t) 0 = Inr s" "GetEndPoint (Line s t) 1 = Inr t" by simp_all
    have a1: "one_curve (Line s1 t1) 0 = Some \<lparr>Category = Some 0, Location = LocationCurve (Line s1 t1)\<rparr>"
      by (simp add: one_curve_def)
    have b1: "Location \<lparr>Category = Some 0, Location = LocationCurve (Line s1 t1)\<rparr> = LocationCurve (Line s1 t1)"
      by simp
    have c1: "GetEndPoint (Line s1 t1) 0 = Inr s1" "GetEndPoint (Line s1 t1) 1 = Inr t1" by simp_all
    have u: "(0::real) \<le> 1 / 2 ^ 53" "(1::real) / 2 ^ 53 \<le> 1" by simp_all
    have acc': "accurate round_binary64 (1 / 2 ^ 53)
       (shift_operations round_binary64 (Z s) (Z t) float_0_2 @
        shift_operations round_binary64 (Z s1) (Z t1) float_0_2)"
      unfolding s_def t_def s1_def t1_def XYZ.simps by (rule acc)
    show ?thesis
      by (rule shift_twice_within_rounding[where doc = "one_curve (Line s t)" and i = 0,
            OF a b c run1 a1 b1 c1 run2 u acc'])
  qed
  then obtain el2 c2 p2 q2 where w: "one_curve (Line s2 t1) 0 = Some el2" "Location el2 = LocationCurve c2"
    "GetEndPoint c2 0 = Inr p2"
    "\<bar>Z p2 - Z s1\<bar> \<le> 230 * (1 / 2 ^ 53) * (\<bar>Z s\<bar> + \<bar>Z t\<bar> + \<bar>float_0_2\<bar>)"
    by blast
  from w(1,2,3) have "p2 = s2" by (auto simp: one_curve_def)
  with w(4) have c: "\<bar>- 2702159776422297 / 2 ^ 53 - (- 5404319552844595 / 2 ^ 54)\<bar>
      \<le> 230 * (1 / 2 ^ 53) * (\<bar>0\<bar> + \<bar>1\<bar> + \<bar>float_0_2\<bar>)"
    by (simp add: s_def t_def s1_def s2_def)
  show ?thesis
    using acc run1 run2 c unfolding s_def t_def s1_def t1_def s2_def by (intro conjI)
qed

section \<open>Failures of the helpers\<close>

text \<open>
  C4, as stated, fails. The only geometry that \<open>set_element_elevation\<close> refuses is a
  location that is no \<open>LocationCurve\<close>. An arc from \<open>(0, 0, 0)\<close> to \<open>(10, 0, 0)\<close> has two
  end points like a line: when the host accepts the assignment, the arc is replaced by
  the straight line between its shifted end points and the helper returns \<open>True\<close>.
\<close>

theorem arc_is_replaced_counterexample:
  "set_element_elevation round_binary64 plain_host
     (one_curve (Arc \<lparr>X = 0, Y = 0, Z = 0\<rparr> \<lparr>X = 10, Y = 0, Z = 0\<rparr> \<lparr>X = 5, Y = 5, Z = 0\<rparr>)) 0 3 =
     Inr (True, one_curve (Line \<lparr>X = 0, Y = 0, Z = 3\<rparr> \<lparr>X = 10, Y = 0, Z = 3\<rparr>)) \<and>
   one_curve (Line \<lparr>X = 0, Y = 0, Z = 3\<rparr> \<lparr>X = 10, Y = 0, Z = 3\<rparr>) 0 \<noteq>
   one_curve (Arc \<lparr>X = 0, Y = 0, Z = 0\<rparr> \<lparr>X = 10, Y = 0, Z = 0\<rparr> \<lparr>X = 5, Y = 5, Z = 0\<rparr>) 0"
proof -
  have r: "round_binary64 3 = 3" by code_simp
  show ?thesis
    by (simp add: set_element_elevation_def set_element_elevation_body_def one_curve_def
        plain_host_def CreateBound_def set_Curve_def fadd_def fsub_def fdiv_def fun_eq_iff
        r round_binary64_def[of 0])
qed

text \<open>
  C4, amended. For a target whose location is no \<open>LocationCurve\<close>, the helper returns
  \<open>False\<close> and the document is as before; and whenever the helper returns \<open>False\<close>, for
  whatever reason, the document is as before.
\<close>

theorem apply_failure_leaves_target:
  "(doc i = Some el \<and> \<not> is_LocationCurve (Location el)
      \<longrightarrow> set_element_elevation rnd h doc i E = Inr (False, doc)) \<and>
   (set_element_elevation rnd h doc i E = Inr (False, doc') \<longrightarrow> doc' = doc)"
proof (intro conjI impI)
  assume "doc i = Some el \<and> \<not> is_LocationCurve (Location el)"
  then show "set_element_elevation rnd h doc i E = Inr (False, doc)"
    by (cases "Location el")
      (simp_all add: set_element_elevation_def set_element_elevation_body_def)
next
  assume "set_element_elevation rnd h doc i E = Inr (False, doc')"
  from set_element_elevation_cases[OF this] show "doc' = doc" by auto
qed

text \<open>A target that lies on a point.\<close>

theorem apply_failure_leaves_target_witness:
  "one_point \<lparr>X = 1, Y = 2, Z = 3\<rparr> 0 = Some \<lparr>Category = Some 0, Location = LocationPoint \<lparr>X = 1, Y = 2, Z = 3\<rparr>\<rparr> \<and>
   \<not> is_LocationCurve (Location \<lparr>Category = Some 0, Location = LocationPoint \<lparr>X = 1, Y = 2, Z = 3\<rparr>\<rparr>) \<and>
   set_element_elevation round_binary64 plain_host (one_point \<lparr>X = 1, Y = 2, Z = 3\<rparr>) 0 5 =
     Inr (False, one_point \<lparr>X = 1, Y = 2, Z = 3\<rparr>)"
  using apply_failure_leaves_target[where doc = "one_point \<lparr>X = 1, Y = 2, Z = 3\<rparr>" and i = 0
      and el = "\<lparr>Category = Some 0, Location = LocationPoint \<lparr>X = 1, Y = 2, Z = 3\<rparr>\<rparr>"
      and rnd = round_binary64 and h = plain_host and E = 5
      and doc' = "one_point \<lparr>X = 1, Y = 2, Z = 3\<rparr>"]
  by (simp add: one_point_def)

text \<open>
  C10. Neither helper lets an exception escape: each returns a value for every document
  and handle; an exception inside the \<open>try\<close> block becomes \<open>None\<close>, respectively
  \<open>False\<close> with the document as before; and a location that is no \<open>LocationCurve\<close> gives
  the same two results.
\<close>

theorem helpers_never_raise:
  "(\<exists>r. get_element_middle_elevation rnd doc i = Inr r) \<and>
   (\<exists>ok doc'. set_element_elevation rnd h doc i E = Inr (ok, doc')) \<and>
   (get_element_middle_elevation_body rnd doc i = Inl e
      \<longrightarrow> get_element_middle_elevation rnd doc i = Inr None) \<and>
   (set_element_elevation_body rnd h doc i E = Inl e
      \<longrightarrow> set_element_elevation rnd h doc i E = Inr (False, doc)) \<and>
   (doc i = Some el \<and> \<not> is_LocationCurve (Location el)
      \<longrightarrow> get_element_middle_elevation rnd doc i = Inr None \<and>
          set_element_elevation rnd h doc i E = Inr (False, doc))"
proof (intro conjI impI)
  show "\<exists>r. get_element_middle_elevation rnd doc i = Inr r"
    by (simp add: get_element_middle_elevation_def split: sum.splits)
  show "\<exists>ok doc'. set_element_elevation rnd h doc i E = Inr (ok, doc')"
    by (cases "set_element_elevation_body rnd h doc i E")
      (auto simp: set_element_elevation_def)
next
  assume "get_element_middle_elevation_body rnd doc i = Inl e"
  then show "get_element_middle_elevation rnd doc i = Inr None"
    by (simp add: get_element_middle_elevation_def)
next
  assume "set_element_elevation_body rnd h doc i E = Inl e"
  then show "set_element_elevation rnd h doc i E = Inr (False, doc)"
    by (simp add: set_element_elevation_def)
next
  assume a: "doc i = Some el \<and> \<not> is_LocationCurve (Location el)"
  then show "get_element_middle_elevation rnd doc i = Inr None"
    by (cases "Location el")
      (simp_all add: get_element_middle_elevation_def get_element_middle_elevation_body_def)
  from a show "set_element_elevation rnd h doc i E = Inr (False, doc)"
    by (cases "Location el")
      (simp_all add: set_element_elevation_def set_element_elevation_body_def)
qed

text \<open>
  A curve without end points makes both \<open>try\<close> blocks raise, and a target on a point
  has no \<open>LocationCurve\<close>: no exception leaves the helpers, and the document stays.
\<close>

theorem helpers_never_raise_witness:
  "get_element_middle_elevation_body round_binary64
     (one_curve (UnboundLine \<lparr>X = 0, Y = 0, Z = 0\<rparr> \<lparr>X = 1, Y = 0, Z = 0\<rparr>)) 0 = Inl HostException \<and>
   get_element_middle_elevation round_binary64
     (one_curve (UnboundLine \<lparr>X = 0, Y = 0, Z = 0\<rparr> \<lparr>X = 1, Y = 0, Z = 0\<rparr>)) 0 = Inr None \<and>
   set_element_elevation_body round_binary64 plain_host
     (one_curve (UnboundLine \<lparr>X = 0, Y = 0, Z = 0\<rparr> \<lparr>X = 1, Y = 0, Z = 0\<rparr>)) 0 5 = Inl HostException \<and>
   set_element_elevation round_binary64 plain_host
     (one_curve (UnboundLine \<lparr>X = 0, Y = 0, Z = 0\<rparr> \<lparr>X = 1, Y = 0, Z = 0\<rparr>)) 0 5 =
     Inr (False, one_curve (UnboundLine \<lparr>X = 0, Y = 0, Z = 0\<rparr> \<lparr>X = 1, Y = 0, Z = 0\<rparr>)) \<and>
   one_point \<lparr>X = 1, Y = 2, Z = 3\<rparr> 0 = Some \<lparr>Category = Some 0, Location = LocationPoint \<lparr>X = 1, Y = 2, Z = 3\<rparr>\<rparr> \<and>
   \<not> is_LocationCurve (Location \<lparr>Category = Some 0, Location = LocationPoint \<lparr>X = 1, Y = 2, Z = 3\<rparr>\<rparr>) \<and>
   get_element_middle_elevation round_binary64 (one_point \<lparr>X = 1, Y = 2, Z = 3\<rparr>) 0 = Inr None \<and>
   set_element_elevation round_binary64 plain_host (one_point \<lparr>X = 1, Y = 2, Z = 3\<rparr>) 0 5 =
     Inr (False, one_point \<lparr>X = 1, Y = 2, Z = 3\<rparr>)"
proof -
  have a: "get_element_middle_elevation_body round_binary64
     (one_curve (UnboundLine \<lparr>X = 0, Y = 0, Z = 0\<rparr> \<lparr>X = 1, Y = 0, Z = 0\<rparr>)) 0 = Inl HostException"
    by (simp add: get_element_middle_elevation_body_def one_curve_def)
  have b: "set_element_elevation_body round_binary64 plain_host
     (one_curve (UnboundLine \<lparr>X = 0, Y = 0, Z = 0\<rparr> \<lparr>X = 1, Y = 0, Z = 0\<rparr>)) 0 5 = Inl HostException"
    by (simp add: set_element_elevation_body_def one_curve_def)
  have c: "one_point \<lparr>X = 1, Y = 2, Z = 3\<rparr> 0 =
             Some \<lparr>Category = Some 0, Location = LocationPoint \<lparr>X = 1, Y = 2, Z = 3\<rparr>\<rparr>"
    by (simp add: one_point_def)
  show ?thesis
    using a b c
      helpers_never_raise[where rnd = round_binary64 and h = plain_host and E = 5 and i = 0
        and e = HostException
        and doc = "one_curve (UnboundLine \<lparr>X = 0, Y = 0, Z = 0\<rparr> \<lparr>X = 1, Y = 0, Z = 0\<rparr>)"]
      helpers_never_raise[where rnd = round_binary64 and h = plain_host and E = 5 and i = 0
        and doc = "one_point \<lparr>X = 1, Y = 2, Z = 3\<rparr>"
        and el = "\<lparr>Category = Some 0, Location = LocationPoint \<lparr>X = 1, Y = 2, Z = 3\<rparr>\<rparr>"]
    by simp
qed

section \<open>The selection filter\<close>

text \<open>
  C8. \<open>AllowElement\<close> answers \<open>True\<close> exactly for an element whose category is one of the
  six categories pipe, duct, cable tray, conduit, flex duct and flex pipe;
  \<open>AllowReference\<close> answers \<open>False\<close>; and in every session of the elevation tool each
  element that \<open>PickObject\<close> returns, as the source or as a target, is one that
  \<open>AllowElement\<close> allows. The filter is a function of the element alone and changes
  nothing.
\<close>

theorem filter_allows_six_categories:
  "(AllowElement int_of el = Inr True \<longleftrightarrow>
      (\<exists>v. Category el = Some v \<and>
           v \<in> int_of ` {OST_PipeCurves, OST_DuctCurves, OST_CableTray, OST_Conduit,
                          OST_FlexDuctCurves, OST_FlexPipeCurves})) \<and>
   AllowReference reference position = False \<and>
   (\<forall>p i. Pick p (Returned i) \<in> set (events (main_elevation rnd h int_of doc ins)) \<longrightarrow>
      (\<exists>el'. doc i = Some el' \<and> AllowElement int_of el' = Inr True))"
proof (intro conjI allI impI)
  show "AllowElement int_of el = Inr True \<longleftrightarrow>
      (\<exists>v. Category el = Some v \<and>
           v \<in> int_of ` {OST_PipeCurves, OST_DuctCurves, OST_CableTray, OST_Conduit,
                          OST_FlexDuctCurves, OST_FlexPipeCurves})"
    by (simp add: AllowElement_iff categories_def)
  show "AllowReference reference position = False" by (simp add: AllowReference_def)
next
  fix p i
  assume a: "Pick p (Returned i) \<in> set (events (main_elevation rnd h int_of doc ins))"
  show "\<exists>el'. doc i = Some el' \<and> AllowElement int_of el' = Inr True"
  proof (cases "PickObject (AllowElement int_of) doc ins")
    case (Pair r rest)
    show ?thesis
    proof (cases r)
      case (Returned sid)
      from PickObject_Returned[of "AllowElement int_of" doc ins sid rest] Pair Returned
      have src: "\<exists>el. doc sid = Some el \<and> AllowElement int_of el = Inr True" by simp
      show ?thesis
      proof (cases "get_element_middle_elevation rnd doc sid")
        case (Inl e)
        with a Pair Returned src show ?thesis by (simp add: main_elevation_def)
      next
        case (Inr m)
        show ?thesis
        proof (cases m)
          case None
          with a Pair Returned Inr src show ?thesis by (simp add: main_elevation_def)
        next
          case (Some v)
          with a Pair Returned Inr
          have "Pick p (Returned i) \<in> set (events (target_loop rnd h int_of v doc rest 0
                   [Pick Source (Returned sid)]))"
            by (simp add: main_elevation_def)
          from target_loop_picks[OF this, of doc] src show ?thesis by auto
        qed
      qed
    qed (use a Pair in \<open>simp_all add: main_elevation_def\<close>)
  qed
qed

text \<open>
  A session in which the operator clicks the pipe 0, the element 3 of another category,
  the duct 2, and presses ESC: the click on element 3 is ignored.
\<close>

theorem filter_allows_six_categories_witness:
  "events (main_elevation round_binary64 plain_host category_number pipes [Click 0, Click 3, Click 2, Esc]) =
     [Pick Source (Returned 0), Pick Target (Returned 2), Transaction_committed,
      Pick Target (Raised OperationCanceledException)] \<and>
   (\<exists>el'. pipes 0 = Some el' \<and> AllowElement category_number el' = Inr True) \<and>
   (\<exists>el'. pipes 2 = Some el' \<and> AllowElement category_number el' = Inr True) \<and>
   AllowElement category_number \<lparr>Category = Some (- 2000011),
        Location = LocationCurve (Line \<lparr>X = 0, Y = 9, Z = 0\<rparr> \<lparr>X = 8, Y = 9, Z = 0\<rparr>)\<rparr> = Inr False"
proof -
  have r: "round_binary64 4 = 4" "round_binary64 2 = 2" "round_binary64 1 = 1" by code_simp+
  have ev: "events (main_elevation round_binary64 plain_host category_number pipes [Click 0, Click 3, Click 2, Esc]) =
     [Pick Source (Returned 0), Pick Target (Returned 2), Transaction_committed,
      Pick Target (Raised OperationCanceledException)]"
    by (simp add: main_elevation_def target_loop.simps pipes_def category_number_def
        AllowElement_def categories_def get_element_middle_elevation_def
        get_element_middle_elevation_body_def set_element_elevation_def
        set_element_elevation_body_def CreateBound_def set_Curve_def plain_host_def
        fadd_def fdiv_def fsub_def r)
  have w: "AllowElement category_number \<lparr>Category = Some (- 2000011),
        Location = LocationCurve (Line \<lparr>X = 0, Y = 9, Z = 0\<rparr> \<lparr>X = 8, Y = 9, Z = 0\<rparr>)\<rparr> = Inr False"
    by (simp add: AllowElement_def categories_def category_number_def)
  note g = filter_allows_six_categories[where int_of = category_number and rnd = round_binary64
      and h = plain_host and doc = pipes and ins = "[Click 0, Click 3, Click 2, Esc]"
      and el = "the (pipes 0)" and reference = "()" and position = "()",
      THEN conjunct2, THEN conjunct2, rule_format]
  show ?thesis
    using g[of Source 0] g[of Target 2] w by (simp add: ev)
qed

section \<open>The sessions\<close>

text \<open>
  C9. In every session of the elevation tool the counter at the end is the number of
  targets that \<open>PickObject\<close> returned, whatever \<open>set_element_elevation\<close> returned for
  them. For the target 1, which lies on a point, the helper returns \<open>False\<close>: the session
  that picks it ends with the counter 1 and the document as it was.
\<close>

theorem counter_counts_picked_targets:
  "count (main_elevation rnd h int_of doc ins) =
     length (picked_targets (events (main_elevation rnd h int_of doc ins))) \<and>
   set_element_elevation round_binary64 plain_host pipes 1 2 = Inr (False, pipes) \<and>
   main_elevation round_binary64 plain_host category_number pipes [Click 0, Click 1, Esc] =
     \<lparr>document = pipes, count = 1,
      events = [Pick Source (Returned 0), Pick Target (Returned 1), Transaction_committed,
                Pick Target (Raised OperationCanceledException)],
      returned = True\<rparr>"
proof (intro conjI)
  show "count (main_elevation rnd h int_of doc ins) =
     length (picked_targets (events (main_elevation rnd h int_of doc ins)))"
  proof (cases "PickObject (AllowElement int_of) doc ins")
    case (Pair r rest)
    show ?thesis
    proof (cases r)
      case (Returned i)
      show ?thesis
      proof (cases "get_element_middle_elevation rnd doc i")
        case (Inl e)
        with Pair Returned show ?thesis by (simp add: main_elevation_def)
      next
        case (Inr m)
        show ?thesis
        proof (cases m)
          case None
          with Pair Returned Inr show ?thesis by (simp add: main_elevation_def)
        next
          case (Some src)
          with Pair Returned Inr
            target_loop_count[of rnd h int_of src doc rest 0 "[Pick Source (Returned i)]"]
          show ?thesis by (simp add: main_elevation_def)
        qed
      qed
    qed (use Pair in \<open>simp_all add: main_elevation_def\<close>)
  qed
  show "set_element_elevation round_binary64 plain_host pipes 1 2 = Inr (False, pipes)"
    by (simp add: set_element_elevation_def set_element_elevation_body_def pipes_def)
  have r: "round_binary64 4 = 4" "round_binary64 2 = 2" by code_simp+
  show "main_elevation round_binary64 plain_host category_number pipes [Click 0, Click 1, Esc] =
     \<lparr>document = pipes, count = 1,
      events = [Pick Source (Returned 0), Pick Target (Returned 1), Transaction_committed,
                Pick Target (Raised OperationCanceledException)],
      returned = True\<rparr>"
    by (simp add: main_elevation_def target_loop.simps pipes_def category_number_def
        AllowElement_def categories_def get_element_middle_elevation_def
        get_element_middle_elevation_body_def set_element_elevation_def
        set_element_elevation_body_def fadd_def fdiv_def r)
qed

text \<open>
  C5. After the pick of a source dimension, the alert that there is no text to copy is
  shown exactly when each of the four fields is \<open>None\<close> or the empty string. The session
  then ends with that alert, the document as it was, and no pick of a target; otherwise
  the next event after the pick of the source is the pick of a target.
\<close>

theorem nothing_to_copy:
  assumes pick: "PickObject Dimension_AllowElement doc ins = (Returned source, rest)"
    and src: "doc source = Some (DB_Dimension d)"
  shows "(No_Text_Found \<in> set (alerts (events (main_dimension pr doc ins))) \<longleftrightarrow>
            Above d \<in> {None, Some []} \<and> Below d \<in> {None, Some []} \<and>
            Prefix d \<in> {None, Some []} \<and> Suffix d \<in> {None, Some []}) \<and>
         (Above d \<in> {None, Some []} \<and> Below d \<in> {None, Some []} \<and>
          Prefix d \<in> {None, Some []} \<and> Suffix d \<in> {None, Some []} \<longrightarrow>
            main_dimension pr doc ins =
              \<lparr>document = doc, count = 0,
               events = [Pick Source (Returned source), Alert No_Text_Found], returned = True\<rparr>) \<and>
         (\<not> (Above d \<in> {None, Some []} \<and> Below d \<in> {None, Some []} \<and>
             Prefix d \<in> {None, Some []} \<and> Suffix d \<in> {None, Some []}) \<longrightarrow>
            (\<exists>r es. events (main_dimension pr doc ins) =
               Pick Source (Returned source) # Pick Target r # es))"
proof -
  define empty where "empty \<longleftrightarrow> Above d \<in> {None, Some []} \<and> Below d \<in> {None, Some []} \<and>
            Prefix d \<in> {None, Some []} \<and> Suffix d \<in> {None, Some []}"
  have e: "empty \<longleftrightarrow> \<not> truthy (Above d) \<and> \<not> truthy (Below d) \<and> \<not> truthy (Prefix d) \<and> \<not> truthy (Suffix d)"
    by (auto simp: empty_def truthy_iff)
  have 1: "main_dimension pr doc ins =
              \<lparr>document = doc, count = 0,
               events = [Pick Source (Returned source), Alert No_Text_Found], returned = True\<rparr>"
    if empty
    using that pick src e by (simp add: main_dimension_def)
  have m: "main_dimension pr doc ins = final_feedback
       (paste_loop pr (Above d) (Below d) (Prefix d) (Suffix d) doc rest 0 [Pick Source (Returned source)])"
    if "\<not> empty"
    using that pick src e by (auto simp: main_dimension_def Let_def)
  have 2: "\<exists>r es. events (main_dimension pr doc ins) = Pick Source (Returned source) # Pick Target r # es"
    if ne: "\<not> empty"
  proof -
    obtain r es where l: "events (paste_loop pr (Above d) (Below d) (Prefix d) (Suffix d) doc rest 0
        [Pick Source (Returned source)]) = [Pick Source (Returned source)] @ Pick Target r # es"
      using paste_loop_events by blast
    obtain es' where "events (main_dimension pr doc ins) =
        ([Pick Source (Returned source)] @ Pick Target r # es) @ es'"
      using final_feedback_events[of "paste_loop pr (Above d) (Below d) (Prefix d) (Suffix d) doc rest 0
        [Pick Source (Returned source)]"] m[OF ne] l by auto
    then show ?thesis by simp
  qed
  have 3: "No_Text_Found \<notin> set (alerts (events (main_dimension pr doc ins)))" if ne: "\<not> empty"
  proof -
    let ?l = "paste_loop pr (Above d) (Below d) (Prefix d) (Suffix d) doc rest 0 [Pick Source (Returned source)]"
    have "No_Text_Found \<notin> set (alerts (events ?l))"
      using paste_loop_alerts[of pr "Above d" "Below d" "Prefix d" "Suffix d" doc rest 0
          "[Pick Source (Returned source)]"] by auto
    moreover obtain es where "events (final_feedback ?l) = events ?l @ es"
      "es = [] \<or> es = [Alert (Success (count ?l))] \<or> es = [Alert Finished_none_updated]"
      using final_feedback_events[of ?l] by blast
    ultimately show ?thesis using m[OF ne] by (auto simp: alerts_append)
  qed
  from 1 2 3 show ?thesis unfolding empty_def[symmetric] by (cases empty) auto
qed

text \<open>The source 5 without text, and the source 0 with text.\<close>

theorem nothing_to_copy_witness:
  "PickObject Dimension_AllowElement dimensions [Click 5, Click 1, Esc] = (Returned 5, [Click 1, Esc]) \<and>
   dimensions 5 = Some (DB_Dimension \<lparr>Above = Some '''', Below = None, Prefix = Some '''', Suffix = None\<rparr>) \<and>
   main_dimension rejects_2 dimensions [Click 5, Click 1, Esc] =
     \<lparr>document = dimensions, count = 0,
      events = [Pick Source (Returned 5), Alert No_Text_Found], returned = True\<rparr> \<and>
   PickObject Dimension_AllowElement dimensions [Click 0, Click 1, Esc] = (Returned 0, [Click 1, Esc]) \<and>
   dimensions 0 = Some (DB_Dimension \<lparr>Above = Some ''A'', Below = Some '''', Prefix = Some ''PRE'', Suffix = None\<rparr>) \<and>
   No_Text_Found \<notin> set (alerts (events (main_dimension rejects_2 dimensions [Click 0, Click 1, Esc]))) \<and>
   (\<exists>r es. events (main_dimension rejects_2 dimensions [Click 0, Click 1, Esc]) =
      Pick Source (Returned 0) # Pick Target r # es)"
proof -
  have a: "PickObject Dimension_AllowElement dimensions [Click 5, Click 1, Esc] = (Returned 5, [Click 1, Esc])"
    "dimensions 5 = Some (DB_Dimension \<lparr>Above = Some '''', Below = None, Prefix = Some '''', Suffix = None\<rparr>)"
    by (simp_all add: dimensions_def)
  have b: "PickObject Dimension_AllowElement dimensions [Click 0, Click 1, Esc] = (Returned 0, [Click 1, Esc])"
    "dimensions 0 = Some (DB_Dimension \<lparr>Above = Some ''A'', Below = Some '''', Prefix = Some ''PRE'', Suffix = None\<rparr>)"
    by (simp_all add: dimensions_def)
  show ?thesis
    using a b nothing_to_copy[OF a, of rejects_2] nothing_to_copy[OF b, of rejects_2]
    by simp
qed

text \<open>
  C3, as stated, fails. Dimension tool: of the three targets 1, 2 and 3 the second fails;
  the loop ends there, after an error alert, with one dimension updated, and target 3
  is never picked nor changed. Elevation tool: of the three targets 2, 1 and 4 the second
  fails; the loop goes on, but the counter is 3 and nothing records the failure.
\<close>

theorem failure_isolation_counterexample:
  "count (main_dimension rejects_2 dimensions [Click 0, Click 1, Click 2, Click 3, Esc]) = 1 \<and>
   events (main_dimension rejects_2 dimensions [Click 0, Click 1, Click 2, Click 3, Esc]) =
     [Pick Source (Returned 0),
      Pick Target (Returned 1), Transaction_committed, RefreshActiveView,
      Pick Target (Returned 2), Transaction_rolled_back, Alert Selection_Error,
      Alert (Success 1)] \<and>
   document (main_dimension rejects_2 dimensions [Click 0, Click 1, Click 2, Click 3, Esc]) 3 =
     dimensions 3 \<and>
   count (main_elevation round_binary64 plain_host category_number pipes
            [Click 0, Click 2, Click 1, Click 4, Esc]) = 3 \<and>
   events (main_elevation round_binary64 plain_host category_number pipes
            [Click 0, Click 2, Click 1, Click 4, Esc]) =
     [Pick Source (Returned 0),
      Pick Target (Returned 2), Transaction_committed,
      Pick Target (Returned 1), Transaction_committed,
      Pick Target (Returned 4), Transaction_committed,
      Pick Target (Raised OperationCanceledException)] \<and>
   document (main_elevation round_binary64 plain_host category_number pipes
            [Click 0, Click 2, Click 1, Click 4, Esc]) 1 = pipes 1"
proof -
  have r: "round_binary64 4 = 4" "round_binary64 2 = 2" "round_binary64 1 = 1"
    "round_binary64 3 = 3" "round_binary64 6 = 6" "round_binary64 (- 1) = - 1"
    by code_simp+
  have d: "main_dimension rejects_2 dimensions [Click 0, Click 1, Click 2, Click 3, Esc] =
     \<lparr>document = dimensions(1 \<mapsto> DB_Dimension \<lparr>Above = Some ''A'', Below = Some '''', Prefix = Some ''PRE'', Suffix = None\<rparr>),
      count = 1,
      events = [Pick Source (Returned 0),
        Pick Target (Returned 1), Transaction_committed, RefreshActiveView,
        Pick Target (Returned 2), Transaction_rolled_back, Alert Selection_Error,
        Alert (Success 1)],
      returned = True\<rparr>"
    by (simp add: main_dimension_def paste_loop.simps final_feedback_def paste_def
        dimensions_def rejects_2_def Let_def fun_eq_iff)
  have e: "count (main_elevation round_binary64 plain_host category_number pipes
            [Click 0, Click 2, Click 1, Click 4, Esc]) = 3"
   "events (main_elevation round_binary64 plain_host category_number pipes
            [Click 0, Click 2, Click 1, Click 4, Esc]) =
     [Pick Source (Returned 0),
      Pick Target (Returned 2), Transaction_committed,
      Pick Target (Returned 1), Transaction_committed,
      Pick Target (Returned 4), Transaction_committed,
      Pick Target (Raised OperationCanceledException)]"
   "document (main_elevation round_binary64 plain_host category_number pipes
            [Click 0, Click 2, Click 1, Click 4, Esc]) 1 = pipes 1"
    by (simp_all add: main_elevation_def target_loop.simps pipes_def category_number_def
        AllowElement_def categories_def get_element_middle_elevation_def
        get_element_middle_elevation_body_def set_element_elevation_def
        set_element_elevation_body_def CreateBound_def set_Curve_def plain_host_def
        fadd_def fdiv_def fsub_def r)
  have d1: "count (main_dimension rejects_2 dimensions [Click 0, Click 1, Click 2, Click 3, Esc]) = 1"
    "events (main_dimension rejects_2 dimensions [Click 0, Click 1, Click 2, Click 3, Esc]) =
     [Pick Source (Returned 0),
      Pick Target (Returned 1), Transaction_committed, RefreshActiveView,
      Pick Target (Returned 2), Transaction_rolled_back, Alert Selection_Error,
      Alert (Success 1)]"
    "document (main_dimension rejects_2 dimensions [Click 0, Click 1, Click 2, Click 3, Esc]) 3 =
     dimensions 3"
    unfolding d by simp_all
  show ?thesis by (intro conjI d1 e)
qed

text \<open>
  C3, amended. Elevation tool: after the pick of a target the loop goes on with the next
  pick, the counter raised by one, whether the helper changed the target or returned
  \<open>False\<close> and left the document as it was. Dimension tool: when the paste of a picked
  target raises, the transaction is rolled back, an error alert is shown and the loop
  ends: the document and the count stay as they were before this target, and the final
  alert follows.
\<close>

theorem failure_handling:
  "(PickObject (AllowElement int_of) doc ins = (Returned i, rest) \<longrightarrow>
      (\<exists>ok doc'. set_element_elevation rnd h doc i src = Inr (ok, doc') \<and> (ok \<or> doc' = doc) \<and>
         target_loop rnd h int_of src doc ins counter evs =
           target_loop rnd h int_of src doc' rest (counter + 1)
             (evs @ [Pick Target (Returned i), Transaction_committed]))) \<and>
   (PickObject Dimension_AllowElement ddoc dins = (Returned t, drest) \<and>
    paste pr a b p s ddoc t = Inl e \<longrightarrow>
      final_feedback (paste_loop pr a b p s ddoc dins n devs) =
        \<lparr>document = ddoc, count = n,
         events = devs @ [Pick Target (Returned t), Transaction_rolled_back, Alert Selection_Error,
                          Alert (if n > 0 then Success n else Finished_none_updated)],
         returned = True\<rparr>)"
proof (intro conjI impI)
  assume pick: "PickObject (AllowElement int_of) doc ins = (Returned i, rest)"
  obtain ok doc' where r: "set_element_elevation rnd h doc i src = Inr (ok, doc')"
    by (cases "set_element_elevation rnd h doc i src") (auto simp: set_element_elevation_Inr)
  from set_element_elevation_cases[OF r] have "ok \<or> doc' = doc" by auto
  moreover have "target_loop rnd h int_of src doc ins counter evs =
           target_loop rnd h int_of src doc' rest (counter + 1)
             (evs @ [Pick Target (Returned i), Transaction_committed])"
    using pick r by (subst target_loop.simps) simp
  ultimately show "\<exists>ok doc'. set_element_elevation rnd h doc i src = Inr (ok, doc') \<and> (ok \<or> doc' = doc) \<and>
         target_loop rnd h int_of src doc ins counter evs =
           target_loop rnd h int_of src doc' rest (counter + 1)
             (evs @ [Pick Target (Returned i), Transaction_committed])"
    using r by blast
next
  assume "PickObject Dimension_AllowElement ddoc dins = (Returned t, drest) \<and>
    paste pr a b p s ddoc t = Inl e"
  then show "final_feedback (paste_loop pr a b p s ddoc dins n devs) =
        \<lparr>document = ddoc, count = n,
         events = devs @ [Pick Target (Returned t), Transaction_rolled_back, Alert Selection_Error,
                          Alert (if n > 0 then Success n else Finished_none_updated)],
         returned = True\<rparr>"
    by (subst paste_loop.simps) (simp add: final_feedback_def)
qed

text \<open>The target 1 on a point in the elevation tool; the refused dimension 2.\<close>

theorem failure_handling_witness:
  "PickObject (AllowElement category_number) pipes [Click 1, Click 2, Esc] = (Returned 1, [Click 2, Esc]) \<and>
   set_element_elevation round_binary64 plain_host pipes 1 2 = Inr (False, pipes) \<and>
   target_loop round_binary64 plain_host category_number 2 pipes [Click 1, Click 2, Esc] 0 [] =
     target_loop round_binary64 plain_host category_number 2 pipes [Click 2, Esc] 1
       [Pick Target (Returned 1), Transaction_committed] \<and>
   PickObject Dimension_AllowElement dimensions [Click 2, Click 3, Esc] = (Returned 2, [Click 3, Esc]) \<and>
   paste rejects_2 (Some ''A'') (Some '''') (Some ''PRE'') None dimensions 2 = Inl HostException \<and>
   final_feedback (paste_loop rejects_2 (Some ''A'') (Some '''') (Some ''PRE'') None dimensions
       [Click 2, Click 3, Esc] 0 []) =
     \<lparr>document = dimensions, count = 0,
      events = [Pick Target (Returned 2), Transaction_rolled_back, Alert Selection_Error,
                Alert Finished_none_updated],
      returned = True\<rparr>"
proof -
  have a: "PickObject (AllowElement category_number) pipes [Click 1, Click 2, Esc] = (Returned 1, [Click 2, Esc])"
    by (simp add: pipes_def AllowElement_def categories_def category_number_def)
  have b: "set_element_elevation round_binary64 plain_host pipes 1 2 = Inr (False, pipes)"
    by (simp add: set_element_elevation_def set_element_elevation_body_def pipes_def)
  have c: "PickObject Dimension_AllowElement dimensions [Click 2, Click 3, Esc] = (Returned 2, [Click 3, Esc])"
    by (simp add: dimensions_def)
  have d: "paste rejects_2 (Some ''A'') (Some '''') (Some ''PRE'') None dimensions 2 = Inl HostException"
    by (simp add: paste_def dimensions_def rejects_2_def)
  note f = failure_handling[where int_of = category_number and doc = pipes
      and ins = "[Click 1, Click 2, Esc]" and i = 1 and rest = "[Click 2, Esc]"
      and rnd = round_binary64 and h = plain_host and src = 2 and counter = 0 and evs = "[]"
      and ddoc = dimensions and dins = "[Click 2, Click 3, Esc]" and t = 2 and drest = "[Click 3, Esc]"
      and pr = rejects_2 and a = "Some ''A''" and b = "Some ''''" and p = "Some ''PRE''" and s = None
      and e = HostException and n = 0 and devs = "[]"]
  from f[THEN conjunct1, rule_format, OF a] b
  have 1: "target_loop round_binary64 plain_host category_number 2 pipes [Click 1, Click 2, Esc] 0 [] =
     target_loop round_binary64 plain_host category_number 2 pipes [Click 2, Esc] 1
       [Pick Target (Returned 1), Transaction_committed]"
    by auto
  from f[THEN conjunct2, rule_format, OF conjI[OF c d]]
  have 2: "final_feedback (paste_loop rejects_2 (Some ''A'') (Some '''') (Some ''PRE'') None dimensions
       [Click 2, Click 3, Esc] 0 []) =
     \<lparr>document = dimensions, count = 0,
      events = [Pick Target (Returned 2), Transaction_rolled_back, Alert Selection_Error,
                Alert Finished_none_updated],
      returned = True\<rparr>"
    by simp
  show ?thesis by (intro conjI a b c d 1 2)
qed




end
